theory Spec2Isabelle
  imports Complex_Main "HOL-Library.AList"
begin

section \<open>Python values, errors and the environment\<close>

text \<open>
  The two scripts \<^verbatim>\<open>scripts/generate-compliance-report.py\<close> and
  \<^verbatim>\<open>scripts/security-dashboard.py\<close> are embedded function by function.
  Exceptions are values of \<open>py_error\<close>; a function that can raise returns
  \<open>py_error + 'a\<close> with \<open>Inl\<close> for the exception. Python floats are modelled by
  exact reals: the rates below are the exact quotients, not their IEEE roundings.
\<close>

datatype py_error =
    SystemExit int
  | ZeroDivisionError
  | JSONDecodeError
  | AttributeError
  | TypeError
  | PermissionError

text \<open>
  A Python dict keeps its keys in insertion order, so it is an association list:
  \<open>AList.update\<close> is \<^verbatim>\<open>d[k] = v\<close> (a present key is overwritten in place, a new
  key is appended), \<open>AList.map_entry\<close> changes the value of a present key in place,
  and \<open>dict_get\<close> is \<^verbatim>\<open>d.get(k, default)\<close>.
\<close>

type_synonym ('k, 'v) dict = "('k \<times> 'v) list"

definition dict_get :: "('k, 'v) dict \<Rightarrow> 'k \<Rightarrow> 'v \<Rightarrow> 'v" where
  "dict_get d k dflt = (case map_of d k of None \<Rightarrow> dflt | Some v \<Rightarrow> v)"

text \<open>\<^verbatim>\<open>a / b\<close> on two counts: true division, raising on a zero divisor.\<close>

definition truediv :: "nat \<Rightarrow> nat \<Rightarrow> py_error + real" where
  "truediv a b = (if b = 0 then Inl ZeroDivisionError else Inr (real a / real b))"

text \<open>
  The expression \<^verbatim>\<open>(x / y * 100) if y > 0 else 0\<close>, which the source writes four
  times: lines 82 and 133 of the report script, lines 121 and 204 of the dashboard.
\<close>

definition percent_if_positive :: "nat \<Rightarrow> nat \<Rightarrow> py_error + real" where
  "percent_if_positive x y =
     (if y > 0 then (case truediv x y of Inl e \<Rightarrow> Inl e | Inr q \<Rightarrow> Inr (q * 100))
      else Inr 0)"

text \<open>
  A checklist row as \<^verbatim>\<open>csv.DictReader\<close> yields it: a dict from column names to
  text.
\<close>

type_synonym control_record = "(string, string) dict"

text \<open>
  The filesystem the resolver looks at, as one snapshot. \<open>os_stat\<close> is the outcome of
  \<^verbatim>\<open>os.stat(path)\<close>: success, "not found", or another I/O error such as a
  permission denial. \<open>glob_glob\<close> is the list \<^verbatim>\<open>glob.glob(pattern, recursive=True)\<close>
  returns. \<^verbatim>\<open>os.path.exists\<close> is the library function: it calls \<^verbatim>\<open>os.stat\<close> and
  answers \<^verbatim>\<open>False\<close> on every \<^verbatim>\<open>OSError\<close>.
\<close>

datatype stat_result = StatOk | StatNotFound | StatPermissionDenied

record filesystem =
  os_stat :: "string \<Rightarrow> stat_result"
  glob_glob :: "string \<Rightarrow> string list"

definition os_path_exists :: "filesystem \<Rightarrow> string \<Rightarrow> bool" where
  "os_path_exists fs path = (os_stat fs path = StatOk)"

text \<open>
  The clock: \<open>clk k\<close> is what the \<open>k\<close>-th call of \<^verbatim>\<open>datetime.now()\<close> of a run
  returns; the number of calls made so far is threaded through the run. A reading is
  rendered either by \<^verbatim>\<open>isoformat()\<close> or by \<^verbatim>\<open>strftime('%Y-%m-%d %H:%M:%S')\<close>.
\<close>

type_synonym datetime = nat

datatype rendered_time = Isoformat datetime | Strftime datetime

section \<open>generate-compliance-report.py\<close>

subsection \<open>Artifact resolver and control assessor\<close>

definition check_artifact_exists :: "filesystem \<Rightarrow> string \<Rightarrow> bool" where
  "check_artifact_exists fs artifact_path =
     (if artifact_path = [] then False
      else if CHR ''*'' \<in> set artifact_path \<or> CHR ''?'' \<in> set artifact_path
        then length (glob_glob fs artifact_path) > 0
      else os_path_exists fs artifact_path)"

record assessment =
  layer_number :: string
  layer_name :: string
  control_group :: string
  control :: string
  status :: string
  reason :: string
  artifact :: string
  component :: string
  test_category :: string
  metric_kpi :: string
  evidence :: string

definition assess_control :: "filesystem \<Rightarrow> control_record \<Rightarrow> assessment" where
  "assess_control fs c =
     (let artifact = dict_get c ''Policy/Config Artifact'' [];
          (status, reason) =
            (if artifact = [] then (''Not Applicable'', ''No artifact specified'')
             else if check_artifact_exists fs artifact then (''Implemented'', ''Artifact found'')
             else (''Missing'', ''Artifact not found''))
      in \<lparr> layer_number = dict_get c ''Layer #'' [],
           layer_name = dict_get c ''Layer Name'' [],
           control_group = dict_get c ''Control Group'' [],
           control = dict_get c ''Control'' [],
           status = status,
           reason = reason,
           artifact = artifact,
           component = dict_get c ''Component (Rust/K8s/Web3)'' [],
           test_category = dict_get c ''Test Category'' [],
           metric_kpi = dict_get c ''Metric/KPI'' [],
           evidence = dict_get c ''Evidence to Store'' [] \<rparr>)"

subsection \<open>Aggregator\<close>

record layer_stats =
  implemented :: nat
  missing :: nat
  not_applicable :: nat

record summary =
  generated_at :: rendered_time
  total_controls :: nat
  implemented :: nat
  missing :: nat
  not_applicable :: nat
  applicable :: nat
  compliance_rate :: real
  layer_statistics :: "(string, layer_stats) dict"

text \<open>One round of the loop of lines 86 to 96.\<close>

definition layer_step ::
  "(string, layer_stats) dict \<Rightarrow> assessment \<Rightarrow> (string, layer_stats) dict" where
  "layer_step acc a =
     (let layer_num = layer_number a;
          acc1 =
            (if layer_num \<notin> set (map fst acc)
             then AList.update layer_num
                    \<lparr>layer_stats.implemented = 0, missing = 0, not_applicable = 0\<rparr> acc
             else acc)
      in if status a = ''Implemented''
           then AList.map_entry layer_num
                  (\<lambda>s. s\<lparr>layer_stats.implemented := layer_stats.implemented s + 1\<rparr>) acc1
         else if status a = ''Missing''
           then AList.map_entry layer_num
                  (\<lambda>s. s\<lparr>layer_stats.missing := layer_stats.missing s + 1\<rparr>) acc1
         else if status a = ''Not Applicable''
           then AList.map_entry layer_num
                  (\<lambda>s. s\<lparr>layer_stats.not_applicable := layer_stats.not_applicable s + 1\<rparr>) acc1
         else acc1)"

text \<open>
  \<open>generate_summary clk assessments t\<close>: \<open>t\<close> clock readings were taken before the call;
  the result carries the number taken after it.
\<close>

definition generate_summary ::
  "(nat \<Rightarrow> datetime) \<Rightarrow> assessment list \<Rightarrow> nat \<Rightarrow> py_error + (summary \<times> nat)" where
  "generate_summary clk assessments t =
     (let total = length assessments;
          n_implemented = (\<Sum>a\<leftarrow>filter (\<lambda>a. status a = ''Implemented'') assessments. 1);
          n_missing = (\<Sum>a\<leftarrow>filter (\<lambda>a. status a = ''Missing'') assessments. 1);
          n_not_applicable =
            (\<Sum>a\<leftarrow>filter (\<lambda>a. status a = ''Not Applicable'') assessments. 1);
          n_applicable = n_implemented + n_missing
      in case percent_if_positive n_implemented n_applicable of
           Inl e \<Rightarrow> Inl e
         | Inr rate \<Rightarrow>
             (let per_layer = foldl layer_step [] assessments
              in Inr (\<lparr> generated_at = Isoformat (clk t),
                         total_controls = total,
                         implemented = n_implemented,
                         missing = n_missing,
                         not_applicable = n_not_applicable,
                         applicable = n_applicable,
                         compliance_rate = rate,
                         layer_statistics = per_layer \<rparr>, Suc t)))"

subsection \<open>Renderers\<close>

text \<open>
  A rendered line is the sequence of its literal pieces and interpolated values; a
  float keeps its value together with the number of decimals of its format
  (\<^verbatim>\<open>:.2f\<close>, \<^verbatim>\<open>:.1f\<close>). A \<open>cell\<close> is a value that is a count or a text.
\<close>

datatype cell = CInt nat | CStr string

datatype piece =
    Lit string
  | PStr string
  | PNat nat
  | PTime rendered_time
  | PFloat2 real
  | PFloat1 real
  | PCell cell

type_synonym line = "piece list"

text \<open>The body of the loop of lines 130 to 134, for one layer.\<close>

definition layer_statistics_line :: "string \<Rightarrow> layer_stats \<Rightarrow> py_error + line" where
  "layer_statistics_line layer_num stats =
     (let total_layer = layer_stats.implemented stats + layer_stats.missing stats
                          + layer_stats.not_applicable stats;
          applicable_layer = layer_stats.implemented stats + layer_stats.missing stats
      in case percent_if_positive (layer_stats.implemented stats) applicable_layer of
           Inl e \<Rightarrow> Inl e
         | Inr rate \<Rightarrow>
             Inr [Lit ''Layer '', PStr layer_num, Lit '': '',
                  PNat (layer_stats.implemented stats), Lit ''/'', PNat applicable_layer,
                  Lit '' ('', PFloat1 rate, Lit ''%)''])"

fun layer_statistics_lines :: "(string, layer_stats) dict \<Rightarrow> py_error + line list" where
  "layer_statistics_lines [] = Inr []"
| "layer_statistics_lines ((layer_num, stats) # rest) =
     (case layer_statistics_line layer_num stats of
        Inl e \<Rightarrow> Inl e
      | Inr l \<Rightarrow>
          (case layer_statistics_lines rest of
             Inl e \<Rightarrow> Inl e
           | Inr ls \<Rightarrow> Inr (l # ls)))"

definition missing_controls_lines :: "assessment list \<Rightarrow> line list" where
  "missing_controls_lines assessments =
     (let missing_controls = filter (\<lambda>a. status a = ''Missing'') assessments
      in if missing_controls \<noteq> []
         then [[Lit ''MISSING CONTROLS''], [Lit (replicate 20 CHR ''-'')]]
              @ concat (map (\<lambda>c.
                  [[Lit ''Layer '', PStr (layer_number c), Lit '': '',
                    PStr (control_group c), Lit '' - '', PStr (control c)],
                   [Lit ''  Artifact: '', PStr (artifact c)],
                   []]) missing_controls)
         else [])"

text \<open>The report is returned as the list of the lines that the source joins.\<close>

definition generate_text_report :: "assessment list \<Rightarrow> summary \<Rightarrow> py_error + line list" where
  "generate_text_report assessments s =
     (case layer_statistics_lines (layer_statistics s) of
        Inl e \<Rightarrow> Inl e
      | Inr layer_lines \<Rightarrow>
          Inr ([[Lit ''SECURITY COMPLIANCE REPORT''],
                [Lit (replicate 50 CHR ''='')],
                [Lit ''Generated: '', PTime (generated_at s)],
                [],
                [Lit ''SUMMARY''],
                [Lit (replicate 20 CHR ''-'')],
                [Lit ''Total Controls: '', PNat (summary.total_controls s)],
                [Lit ''Implemented: '', PNat (summary.implemented s)],
                [Lit ''Missing: '', PNat (summary.missing s)],
                [Lit ''Not Applicable: '', PNat (summary.not_applicable s)],
                [Lit ''Compliance Rate: '', PFloat2 (summary.compliance_rate s), Lit ''%''],
                [],
                [Lit ''LAYER STATISTICS''],
                [Lit (replicate 20 CHR ''-'')]]
               @ layer_lines
               @ [[]]
               @ missing_controls_lines assessments))"

text \<open>
  The JSON report is the dict that the source hands to \<^verbatim>\<open>json.dumps\<close>: the summary
  under \<^verbatim>\<open>"summary"\<close> and the assessments under \<^verbatim>\<open>"assessments"\<close>.
\<close>

record json_report =
  report_summary :: summary
  report_assessments :: "assessment list"

definition generate_json_report :: "assessment list \<Rightarrow> summary \<Rightarrow> json_report" where
  "generate_json_report assessments s =
     \<lparr> report_summary = s, report_assessments = assessments \<rparr>"

section \<open>security-dashboard.py\<close>

subsection \<open>External audit tools\<close>

text \<open>
  What \<^verbatim>\<open>json.loads\<close> returns, and what \<^verbatim>\<open>subprocess.run\<close> followed by
  \<^verbatim>\<open>json.loads(result.stdout)\<close> does for one tool: the call raises, or it completes
  with a return code and a standard output that parses or does not. The keys of a
  \<open>JObj\<close> are distinct, as in a parsed dict.
\<close>

datatype json =
    JNull
  | JBool bool
  | JNum int
  | JStr string
  | JArr "json list"
  | JObj "(string \<times> json) list"

datatype loads_outcome = RaisesJSONDecodeError | Loaded json

datatype proc_outcome =
    RaisesFileNotFoundError
  | RaisesTimeoutExpired
  | RaisesSubprocessError
  | RaisesPermissionError
  | Completed int loads_outcome

text \<open>\<^verbatim>\<open>x.get(k, default)\<close>: only a dict has the method.\<close>

definition json_get :: "json \<Rightarrow> string \<Rightarrow> json \<Rightarrow> py_error + json" where
  "json_get x k dflt =
     (case x of
        JObj kvs \<Rightarrow> Inr (dict_get kvs k dflt)
      | _ \<Rightarrow> Inl AttributeError)"

text \<open>\<^verbatim>\<open>len(x)\<close>: lists, dicts and strings have a length.\<close>

definition json_len :: "json \<Rightarrow> py_error + nat" where
  "json_len x =
     (case x of
        JArr xs \<Rightarrow> Inr (length xs)
      | JObj kvs \<Rightarrow> Inr (length kvs)
      | JStr s \<Rightarrow> Inr (length s)
      | _ \<Rightarrow> Inl TypeError)"

text \<open>
  What \<^verbatim>\<open>for v in x\<close> yields: the elements of a list, the keys of a dict, the
  characters of a string.
\<close>

definition json_iter :: "json \<Rightarrow> py_error + json list" where
  "json_iter x =
     (case x of
        JArr xs \<Rightarrow> Inr xs
      | JObj kvs \<Rightarrow> Inr (map (\<lambda>kv. JStr (fst kv)) kvs)
      | JStr s \<Rightarrow> Inr (map (\<lambda>c. JStr [c]) s)
      | _ \<Rightarrow> Inl TypeError)"

text \<open>
  \<^verbatim>\<open>len([v for v in vs if v.get("severity") == "critical"])\<close> of lines 61 to 64.
\<close>

fun count_critical :: "json list \<Rightarrow> py_error + nat" where
  "count_critical [] = Inr 0"
| "count_critical (v # vs) =
     (case json_get v ''severity'' JNull of
        Inl e \<Rightarrow> Inl e
      | Inr severity \<Rightarrow>
          (case count_critical vs of
             Inl e \<Rightarrow> Inl e
           | Inr n \<Rightarrow> Inr (if severity = JStr ''critical'' then Suc n else n)))"

text \<open>
  Lines 51 to 68: the dict \<^verbatim>\<open>metrics["vulnerabilities"]\<close> after the first
  \<^verbatim>\<open>try\<close>, or the exception that leaves it. The \<^verbatim>\<open>except\<close> clause names
  \<^verbatim>\<open>TimeoutExpired\<close>, \<^verbatim>\<open>SubprocessError\<close> and \<^verbatim>\<open>FileNotFoundError\<close>; every
  other exception propagates.
\<close>

definition audit_vulnerabilities :: "proc_outcome \<Rightarrow> py_error + (string, cell) dict" where
  "audit_vulnerabilities outcome =
     (case outcome of
        Completed returncode out \<Rightarrow>
          if returncode = 0 then
            (case out of
               RaisesJSONDecodeError \<Rightarrow> Inl JSONDecodeError
             | Loaded audit_data \<Rightarrow>
                 (case json_get audit_data ''vulnerabilities'' (JArr []) of
                    Inl e \<Rightarrow> Inl e
                  | Inr vulns \<Rightarrow>
                      (case json_len vulns of
                         Inl e \<Rightarrow> Inl e
                       | Inr n \<Rightarrow>
                           (case json_iter vulns of
                              Inl e \<Rightarrow> Inl e
                            | Inr vs \<Rightarrow>
                                (case count_critical vs of
                                   Inl e \<Rightarrow> Inl e
                                 | Inr c \<Rightarrow>
                                     Inr (AList.update ''critical'' (CInt c)
                                           (AList.update ''count'' (CInt n) [])))))))
          else Inr (AList.update ''error'' (CStr ''Cargo audit failed'') [])
      | RaisesPermissionError \<Rightarrow> Inl PermissionError
      | _ \<Rightarrow> Inr (AList.update ''error'' (CStr ''Cargo audit not available'') []))"

text \<open>Lines 71 to 85: the dict \<^verbatim>\<open>metrics["compliance"]\<close> after the second \<^verbatim>\<open>try\<close>.\<close>

definition deny_compliance :: "proc_outcome \<Rightarrow> py_error + (string, cell) dict" where
  "deny_compliance outcome =
     (case outcome of
        Completed returncode out \<Rightarrow>
          if returncode = 0 then
            (case out of
               RaisesJSONDecodeError \<Rightarrow> Inl JSONDecodeError
             | Loaded deny_data \<Rightarrow>
                 (case json_get deny_data ''licenses'' (JArr []) of
                    Inl e \<Rightarrow> Inl e
                  | Inr licenses \<Rightarrow>
                      (case json_len licenses of
                         Inl e \<Rightarrow> Inl e
                       | Inr l \<Rightarrow>
                           (case json_get deny_data ''bans'' (JArr []) of
                              Inl e \<Rightarrow> Inl e
                            | Inr bans \<Rightarrow>
                                (case json_len bans of
                                   Inl e \<Rightarrow> Inl e
                                 | Inr b \<Rightarrow>
                                     Inr (AList.update ''ban_issues'' (CInt b)
                                           (AList.update ''license_issues'' (CInt l) [])))))))
          else Inr (AList.update ''error'' (CStr ''Cargo deny failed'') [])
      | RaisesPermissionError \<Rightarrow> Inl PermissionError
      | _ \<Rightarrow> Inr (AList.update ''error'' (CStr ''Cargo deny not available'') []))"

record audit_metrics =
  timestamp :: rendered_time
  vulnerabilities :: "(string, cell) dict"
  compliance :: "(string, cell) dict"
  dependencies :: "(string, cell) dict"
  secrets :: "(string, cell) dict"

text \<open>
  \<open>run_security_audit clk audit deny t\<close>: \<open>audit\<close> and \<open>deny\<close> are what the two tool
  invocations do in this run, \<open>t\<close> the number of clock readings taken before. Line 43
  reads the clock before either tool runs, so the reading is counted whether the
  function returns or raises: the result is the metrics or the exception, paired with
  the number of readings taken after the call.
\<close>

definition run_security_audit ::
  "(nat \<Rightarrow> datetime) \<Rightarrow> proc_outcome \<Rightarrow> proc_outcome \<Rightarrow> nat
     \<Rightarrow> (py_error + audit_metrics) \<times> nat" where
  "run_security_audit clk audit deny t =
     (let stamp = Isoformat (clk t);
          t1 = Suc t
      in case audit_vulnerabilities audit of
           Inl e \<Rightarrow> (Inl e, t1)
         | Inr vulns \<Rightarrow>
             (case deny_compliance deny of
                Inl e \<Rightarrow> (Inl e, t1)
              | Inr compl \<Rightarrow>
                  (Inr \<lparr> timestamp = stamp,
                         vulnerabilities = vulns,
                         compliance = compl,
                         dependencies = [],
                         secrets = [] \<rparr>, t1)))"

subsection \<open>Compliance metrics\<close>

record layer_metric =
  layer_total :: nat
  implemented :: nat
  missing :: nat

record compliance_metrics =
  total_controls :: nat
  implemented_controls :: nat
  missing_controls :: nat
  compliance_rate :: real
  layer_metrics :: "(string, layer_metric) dict"

text \<open>One round of the loop of lines 96 to 101, on the pair of the two counters.\<close>

definition count_step :: "filesystem \<Rightarrow> nat \<times> nat \<Rightarrow> control_record \<Rightarrow> nat \<times> nat" where
  "count_step fs counters c =
     (let artifact = dict_get c ''Policy/Config Artifact'' []
      in if artifact \<noteq> [] \<and> check_artifact_exists fs artifact
           then (fst counters + 1, snd counters)
         else if artifact \<noteq> [] then (fst counters, snd counters + 1)
         else counters)"

text \<open>One round of the loop of lines 105 to 115.\<close>

definition layer_metric_step ::
  "filesystem \<Rightarrow> (string, layer_metric) dict \<Rightarrow> control_record \<Rightarrow> (string, layer_metric) dict"
  where
  "layer_metric_step fs acc c =
     (let layer_num = dict_get c ''Layer #'' ''Unknown'';
          acc1 =
            (if layer_num \<notin> set (map fst acc)
             then AList.update layer_num
                    \<lparr>layer_total = 0, implemented = 0, missing = 0\<rparr> acc
             else acc);
          acc2 = AList.map_entry layer_num (\<lambda>m. m\<lparr>layer_total := layer_total m + 1\<rparr>) acc1;
          artifact = dict_get c ''Policy/Config Artifact'' []
      in if artifact \<noteq> [] \<and> check_artifact_exists fs artifact
           then AList.map_entry layer_num
                  (\<lambda>m. m\<lparr>layer_metric.implemented := layer_metric.implemented m + 1\<rparr>) acc2
         else if artifact \<noteq> []
           then AList.map_entry layer_num
                  (\<lambda>m. m\<lparr>layer_metric.missing := layer_metric.missing m + 1\<rparr>) acc2
         else acc2)"

definition calculate_compliance_metrics ::
  "filesystem \<Rightarrow> control_record list \<Rightarrow> py_error + compliance_metrics" where
  "calculate_compliance_metrics fs checklist =
     (let total = length checklist;
          counters = foldl (count_step fs) (0, 0) checklist;
          per_layer = foldl (layer_metric_step fs) [] checklist
      in case percent_if_positive (fst counters) total of
           Inl e \<Rightarrow> Inl e
         | Inr rate \<Rightarrow>
             Inr \<lparr> total_controls = total,
                   implemented_controls = fst counters,
                   missing_controls = snd counters,
                   compliance_rate = rate,
                   layer_metrics = per_layer \<rparr>)"

subsection \<open>HTML dashboard\<close>

definition layer_names :: "(string, string) dict" where
  "layer_names =
     [(''1'', ''Governance & Policy''),
      (''2'', ''Risk & Threat Modeling''),
      (''3'', ''Secure SDLC & Supply Chain''),
      (''4'', ''Identity & Access (IAM)''),
      (''5'', ''Secrets Management''),
      (''6'', ''Key & Cryptography''),
      (''7'', ''Network Segmentation & Transport''),
      (''8'', ''Perimeter & API Gateway''),
      (''9'', ''Host/Endpoint Hardening''),
      (''10'', ''Containers & Orchestration''),
      (''11'', ''Cloud/IaaS Security''),
      (''12'', ''Data Security''),
      (''13'', ''Application Security''),
      (''14'', ''Protocol/API Security''),
      (''15'', ''Messaging & Event Security''),
      (''16'', ''Database Security''),
      (''17'', ''Wallet/Custody & Key Ops (Web3)''),
      (''18'', ''Oracle & Market Data Integrity (Web3)''),
      (''19'', ''Privacy & Compliance''),
      (''20'', ''Observability & Telemetry Security''),
      (''21'', ''Detection & Response''),
      (''22'', ''Resilience, Availability & Chaos'')]"

definition get_layer_name :: "string \<Rightarrow> string" where
  "get_layer_name layer_num = dict_get layer_names layer_num ''Unknown Layer''"

text \<open>
  The page is kept as the values that its template interpolates, in the order of the
  template; the fixed markup between them is left out. One row of the layer table
  (lines 203 to 215):
\<close>

record layer_row =
  row_layer_num :: string
  row_layer_name :: string
  row_status_class :: string
  row_rate :: real
  row_implemented :: nat
  row_total :: nat

definition layer_table_row :: "string \<Rightarrow> layer_metric \<Rightarrow> py_error + layer_row" where
  "layer_table_row layer_num metrics =
     (case percent_if_positive (layer_metric.implemented metrics) (layer_total metrics) of
        Inl e \<Rightarrow> Inl e
      | Inr rate \<Rightarrow>
          (let status_class =
                 (if rate \<ge> 90 then ''compliant''
                  else if rate \<ge> 70 then ''warning'' else ''non-compliant'')
           in Inr \<lparr> row_layer_num = layer_num,
                     row_layer_name = get_layer_name layer_num,
                     row_status_class = status_class,
                     row_rate = rate,
                     row_implemented = layer_metric.implemented metrics,
                     row_total = layer_total metrics \<rparr>))"

fun layer_table_rows :: "(string, layer_metric) dict \<Rightarrow> py_error + layer_row list" where
  "layer_table_rows [] = Inr []"
| "layer_table_rows ((layer_num, metrics) # rest) =
     (case layer_table_row layer_num metrics of
        Inl e \<Rightarrow> Inl e
      | Inr r \<Rightarrow>
          (case layer_table_rows rest of
             Inl e \<Rightarrow> Inl e
           | Inr rs \<Rightarrow> Inr (r # rs)))"

text \<open>
  The block that line 217 appends is an ordinary string literal, not an f-string: its
  four metric lines reach the page as the text below, braces included, whatever the
  audit metrics are.
\<close>

definition security_metrics_block :: "string list" where
  "security_metrics_block =
     [''<p>Critical Vulnerabilities: {audit_metrics['vulnerabilities'].get('critical', 0)}</p>'',
      ''<p>Total Vulnerabilities: {audit_metrics['vulnerabilities'].get('count', 'N/A')}</p>'',
      ''<p>License Issues: {audit_metrics['compliance'].get('license_issues', 'N/A')}</p>'',
      ''<p>Ban Issues: {audit_metrics['compliance'].get('ban_issues', 'N/A')}</p>'']"

record html_report =
  generated :: rendered_time
  overall_compliance :: real
  overall_implemented :: nat
  overall_total :: nat
  vulnerabilities_count :: cell
  vulnerabilities_critical :: cell
  missing_controls_card :: nat
  layer_rows :: "layer_row list"
  security_metrics :: "string list"

text \<open>
  The first template (lines 141 to 200) is formatted, and with it the clock is read
  (line 164), before the loop over the layers runs: the reading is counted whether the
  function returns or raises.
\<close>

definition generate_html_report ::
  "(nat \<Rightarrow> datetime) \<Rightarrow> audit_metrics \<Rightarrow> compliance_metrics \<Rightarrow> nat
     \<Rightarrow> (py_error + html_report) \<times> nat" where
  "generate_html_report clk am cm t =
     (let stamp = Strftime (clk t);
          t1 = Suc t
      in case layer_table_rows (layer_metrics cm) of
           Inl e \<Rightarrow> (Inl e, t1)
         | Inr rows \<Rightarrow>
             (Inr \<lparr> generated = stamp,
                    overall_compliance = compliance_metrics.compliance_rate cm,
                    overall_implemented = implemented_controls cm,
                    overall_total = compliance_metrics.total_controls cm,
                    vulnerabilities_count =
                      dict_get (vulnerabilities am) ''count'' (CStr ''N/A''),
                    vulnerabilities_critical =
                      dict_get (vulnerabilities am) ''critical'' (CInt 0),
                    missing_controls_card = missing_controls cm,
                    layer_rows = rows,
                    security_metrics = security_metrics_block \<rparr>, t1))"

section \<open>The two programs\<close>

text \<open>
  What a run can see and change. The environment of a run: the filesystem snapshot,
  the clock, what opening and reading a CSV file does, and what the two tool
  invocations do. The world: the number of clock readings taken, the lines printed,
  and the files written (writing is taken to succeed).
\<close>

datatype read_outcome =
    RaisesFileNotFound
  | RaisesException string
  | Rows "control_record list"

record env =
  env_fs :: filesystem
  env_clock :: "nat \<Rightarrow> datetime"
  env_open_csv :: "string \<Rightarrow> read_outcome"
  env_cargo_audit :: proc_outcome
  env_cargo_deny :: proc_outcome

record dashboard_data =
  timestamp :: rendered_time
  audit_metrics :: audit_metrics
  compliance_metrics :: compliance_metrics

datatype document =
    TextReport "line list"
  | JsonReport json_report
  | HtmlReport html_report
  | DashboardJson dashboard_data

record world =
  ticks :: nat
  console :: "line list"
  files :: "(string, document) dict"

definition print_lines :: "line list \<Rightarrow> world \<Rightarrow> world" where
  "print_lines ls w = w\<lparr>console := console w @ ls\<rparr>"

definition write_file :: "string \<Rightarrow> document \<Rightarrow> world \<Rightarrow> world" where
  "write_file name doc w = w\<lparr>files := AList.update name doc (files w)\<rparr>"

definition checklist_file :: string where
  "checklist_file = ''security_layers_checklist.csv''"

text \<open>The line \<^verbatim>\<open>f"Error: Checklist file '{filename}' not found."\<close>.\<close>

definition not_found_message :: "string \<Rightarrow> line" where
  "not_found_message filename =
     [Lit (''Error: Checklist file '' @ [CHR 0x27]), PStr filename,
      Lit (CHR 0x27 # '' not found.'')]"

text \<open>
  \<open>load_checklist\<close> is the same in both scripts (a function in the first, a method
  reading \<^verbatim>\<open>self.checklist_file\<close> in the second).
\<close>

definition load_checklist ::
  "env \<Rightarrow> string \<Rightarrow> world \<Rightarrow> (py_error + control_record list) \<times> world" where
  "load_checklist e filename w =
     (case env_open_csv e filename of
        Rows checklist \<Rightarrow> (Inr checklist, w)
      | RaisesFileNotFound \<Rightarrow>
          (Inl (SystemExit 1),
           print_lines [not_found_message filename] w)
      | RaisesException msg \<Rightarrow>
          (Inl (SystemExit 1),
           print_lines [[Lit ''Error reading checklist: '', PStr msg]] w))"

text \<open>\<^verbatim>\<open>main\<close> of \<^verbatim>\<open>generate-compliance-report.py\<close>.\<close>

definition main_compliance_report :: "env \<Rightarrow> world \<Rightarrow> py_error option \<times> world" where
  "main_compliance_report e w =
     (if \<not> os_path_exists (env_fs e) checklist_file
      then (Some (SystemExit 1),
            print_lines [not_found_message checklist_file] w)
      else
        (case load_checklist e checklist_file w of
           (Inl err, w1) \<Rightarrow> (Some err, w1)
         | (Inr checklist, w1) \<Rightarrow>
             (let assessments = map (assess_control (env_fs e)) checklist
              in case generate_summary (env_clock e) assessments (ticks w1) of
                   Inl err \<Rightarrow> (Some err, w1)
                 | Inr (s, t) \<Rightarrow>
                     (case generate_text_report assessments s of
                        Inl err \<Rightarrow> (Some err, w1\<lparr>ticks := t\<rparr>)
                      | Inr text_report \<Rightarrow>
                          (let json_report = generate_json_report assessments s;
                               w2 = write_file ''security-compliance-report.txt''
                                      (TextReport text_report) (w1\<lparr>ticks := t\<rparr>);
                               w3 = write_file ''security-compliance-report.json''
                                      (JsonReport json_report) w2;
                               w4 = print_lines text_report w3;
                               w5 = print_lines
                                      [[], [Lit ''Reports saved:''],
                                       [Lit ''- security-compliance-report.txt''],
                                       [Lit ''- security-compliance-report.json'']] w4
                           in (None, w5))))))"

text \<open>\<^verbatim>\<open>SecurityDashboard.generate_dashboard\<close>, on the checklist that the constructor loaded.\<close>

definition generate_dashboard ::
  "env \<Rightarrow> control_record list \<Rightarrow> world \<Rightarrow> py_error option \<times> world" where
  "generate_dashboard e checklist w =
     (let w1 = print_lines [[Lit ''Generating security dashboard...'']] w
      in case run_security_audit (env_clock e) (env_cargo_audit e) (env_cargo_deny e) (ticks w1) of
           (Inl err, t1) \<Rightarrow> (Some err, w1\<lparr>ticks := t1\<rparr>)
         | (Inr am, t1) \<Rightarrow>
             (case calculate_compliance_metrics (env_fs e) checklist of
                Inl err \<Rightarrow> (Some err, w1\<lparr>ticks := t1\<rparr>)
              | Inr cm \<Rightarrow>
                  (case generate_html_report (env_clock e) am cm t1 of
                     (Inl err, t2) \<Rightarrow> (Some err, w1\<lparr>ticks := t2\<rparr>)
                   | (Inr html_report, t2) \<Rightarrow>
                       (let w2 = write_file ''security-dashboard.html''
                                   (HtmlReport html_report) (w1\<lparr>ticks := t2\<rparr>);
                            data = \<lparr> timestamp = Isoformat (env_clock e t2),
                                     audit_metrics = am,
                                     compliance_metrics = cm \<rparr>;
                            w3 = write_file ''security-dashboard.json''
                                   (DashboardJson data) (w2\<lparr>ticks := Suc t2\<rparr>);
                            w4 = print_lines
                                   [[Lit ''Security dashboard generated successfully!''],
                                    [Lit ''- security-dashboard.html''],
                                    [Lit ''- security-dashboard.json''],
                                    [], [Lit ''Dashboard Summary:''],
                                    [Lit ''Compliance Rate: '',
                                     PFloat1 (compliance_metrics.compliance_rate cm), Lit ''%''],
                                    [Lit ''Implemented Controls: '',
                                     PNat (implemented_controls cm), Lit ''/'',
                                     PNat (compliance_metrics.total_controls cm)],
                                    [Lit ''Missing Controls: '', PNat (missing_controls cm)],
                                    [Lit ''Critical Vulnerabilities: '',
                                     PCell (dict_get (vulnerabilities am) ''critical'' (CInt 0))]]
                                   w3
                        in (None, w4)))))"

text \<open>
  \<^verbatim>\<open>main\<close> of \<^verbatim>\<open>security-dashboard.py\<close>: the constructor loads the checklist, then
  the dashboard is generated.
\<close>

definition main_security_dashboard :: "env \<Rightarrow> world \<Rightarrow> py_error option \<times> world" where
  "main_security_dashboard e w =
     (case load_checklist e checklist_file w of
        (Inl err, w1) \<Rightarrow> (Some err, w1)
      | (Inr checklist, w1) \<Rightarrow> generate_dashboard e checklist w1)"

section \<open>Example inputs\<close>

text \<open>
  A filesystem snapshot with a directory \<^verbatim>\<open>docs\<close>, a file \<^verbatim>\<open>docs/a.md\<close> and a file
  \<^verbatim>\<open>secrets/key.pem\<close> that \<^verbatim>\<open>os.stat\<close> may not read, and the empty filesystem.
\<close>

definition fs_example :: filesystem where
  "fs_example =
     \<lparr> os_stat = (\<lambda>p. if p = ''docs'' \<or> p = ''docs/a.md'' then StatOk
                      else if p = ''secrets/key.pem'' then StatPermissionDenied
                      else StatNotFound),
       glob_glob = (\<lambda>p. if p = ''docs/*.md'' \<or> p = ''docs/[ab].md'' then [''docs/a.md'']
                         else []) \<rparr>"

definition fs_empty :: filesystem where
  "fs_empty = \<lparr> os_stat = (\<lambda>p. StatNotFound), glob_glob = (\<lambda>p. []) \<rparr>"

definition control_na :: control_record where
  "control_na =
     [(''Layer #'', ''1''), (''Control'', ''Policy review''), (''Policy/Config Artifact'', [])]"

definition control_docs :: control_record where
  "control_docs = [(''Layer #'', ''1''), (''Policy/Config Artifact'', ''docs'')]"

definition control_glob_missing :: control_record where
  "control_glob_missing =
     [(''Layer #'', ''2''), (''Policy/Config Artifact'', ''nonexistent/**/*.conf'')]"

definition control_denied :: control_record where
  "control_denied = [(''Layer #'', ''5''), (''Policy/Config Artifact'', ''secrets/key.pem'')]"

text \<open>
  The specification's "contains glob metacharacters", read with the metacharacters of
  the \<^verbatim>\<open>glob\<close> module that the resolver calls: \<^verbatim>\<open>*\<close>, \<^verbatim>\<open>?\<close> and \<^verbatim>\<open>[\<close>. It is
  compared with the test that \<open>check_artifact_exists\<close> makes.
\<close>

definition spec_has_glob_metacharacter :: "string \<Rightarrow> bool" where
  "spec_has_glob_metacharacter s =
     (CHR ''*'' \<in> set s \<or> CHR ''?'' \<in> set s \<or> CHR ''['' \<in> set s)"

definition checklist_example :: "control_record list" where
  "checklist_example = [control_na, control_docs, control_glob_missing]"

definition clock_example :: "nat \<Rightarrow> datetime" where
  "clock_example k = 1000 + k"

text \<open>
  The timestamps that a written document shows, in the order of the document, and the
  timestamps of all the files of a world.
\<close>

fun piece_times :: "piece \<Rightarrow> rendered_time list" where
  "piece_times (PTime t) = [t]"
| "piece_times _ = []"

definition line_times :: "line \<Rightarrow> rendered_time list" where
  "line_times l = concat (map piece_times l)"

definition document_timestamps :: "document \<Rightarrow> rendered_time list" where
  "document_timestamps doc =
     (case doc of
        TextReport ls \<Rightarrow> concat (map line_times ls)
      | JsonReport r \<Rightarrow> [generated_at (report_summary r)]
      | HtmlReport h \<Rightarrow> [generated h]
      | DashboardJson d \<Rightarrow>
          [dashboard_data.timestamp d, audit_metrics.timestamp (audit_metrics d)])"

definition surfaced_timestamps :: "world \<Rightarrow> rendered_time list" where
  "surfaced_timestamps w = concat (map (\<lambda>f. document_timestamps (snd f)) (files w))"

text \<open>
  Three runs on the example checklist. In the first \<^verbatim>\<open>cargo\<close> is not installed, so
  both invocations raise \<^verbatim>\<open>FileNotFoundError\<close>. In the other two \<^verbatim>\<open>cargo\<close> is
  installed, and both invocations complete: in the second \<^verbatim>\<open>cargo audit\<close> exits with
  0 and prints something that is not JSON while \<^verbatim>\<open>cargo deny\<close> exits with 101 (the
  subcommand is missing); in the third \<^verbatim>\<open>cargo audit\<close> exits with 101 and
  \<^verbatim>\<open>cargo deny\<close> exits with 0 and an empty standard output, which is not JSON either.
\<close>

definition world_start :: world where
  "world_start = \<lparr> ticks = 0, console = [], files = [] \<rparr>"

definition env_example :: env where
  "env_example =
     \<lparr> env_fs = fs_example\<lparr>os_stat := (os_stat fs_example)(checklist_file := StatOk)\<rparr>,
       env_clock = clock_example,
       env_open_csv = (\<lambda>f. if f = checklist_file then Rows checklist_example
                            else RaisesFileNotFound),
       env_cargo_audit = RaisesFileNotFoundError,
       env_cargo_deny = RaisesFileNotFoundError \<rparr>"

definition env_audit_unparseable :: env where
  "env_audit_unparseable =
     env_example\<lparr> env_cargo_audit := Completed 0 RaisesJSONDecodeError,
                   env_cargo_deny := Completed 101 RaisesJSONDecodeError \<rparr>"

definition env_deny_empty_stdout :: env where
  "env_deny_empty_stdout =
     env_example\<lparr> env_cargo_audit := Completed 101 RaisesJSONDecodeError,
                   env_cargo_deny := Completed 0 RaisesJSONDecodeError \<rparr>"

section \<open>Control assessor and artifact resolver\<close>

lemma status_assess_control:
  "status (assess_control fs c) =
     (if dict_get c ''Policy/Config Artifact'' [] = [] then ''Not Applicable''
      else if check_artifact_exists fs (dict_get c ''Policy/Config Artifact'' []) then ''Implemented''
      else ''Missing'')"
  by (simp add: assess_control_def Let_def)

lemma reason_assess_control:
  "reason (assess_control fs c) =
     (if dict_get c ''Policy/Config Artifact'' [] = [] then ''No artifact specified''
      else if check_artifact_exists fs (dict_get c ''Policy/Config Artifact'' []) then ''Artifact found''
      else ''Artifact not found'')"
  by (simp add: assess_control_def Let_def)

text \<open>
  Claim C1, as stated, gives the reasons as \<^verbatim>\<open>no artifact specified\<close>,
  \<^verbatim>\<open>artifact found\<close> and \<^verbatim>\<open>artifact not found\<close>. The assessor writes each of them
  with a capital first letter, so none of the three texts of the claim is produced.
\<close>

theorem assess_control_reason_counterexample:
  "status (assess_control fs_example control_na) = ''Not Applicable''
   \<and> reason (assess_control fs_example control_na) \<noteq> ''no artifact specified''
   \<and> reason (assess_control fs_example control_docs) \<noteq> ''artifact found''
   \<and> reason (assess_control fs_example control_glob_missing) \<noteq> ''artifact not found''"
  by (simp add: status_assess_control reason_assess_control dict_get_def control_na_def control_docs_def
      control_glob_missing_def check_artifact_exists_def fs_example_def os_path_exists_def)

text \<open>
  Claim C1, amended: the status is \<^verbatim>\<open>Not Applicable\<close> exactly when the artifact of
  the record is empty; otherwise it is \<^verbatim>\<open>Implemented\<close> exactly when the resolver finds
  the artifact and \<^verbatim>\<open>Missing\<close> exactly when it does not. The reasons are
  \<^verbatim>\<open>No artifact specified\<close>, \<^verbatim>\<open>Artifact found\<close> and \<^verbatim>\<open>Artifact not found\<close>. Every
  descriptive field is the field of the record (the empty text when the column is
  absent), and two records with the same artifact and the same answer of the resolver
  get the same status.
\<close>

theorem assess_control_status_and_reason:
  "(status (assess_control fs c) = ''Not Applicable''
      \<longleftrightarrow> dict_get c ''Policy/Config Artifact'' [] = [])
   \<and> (dict_get c ''Policy/Config Artifact'' [] \<noteq> [] \<longrightarrow>
        (status (assess_control fs c) = ''Implemented''
           \<longleftrightarrow> check_artifact_exists fs (dict_get c ''Policy/Config Artifact'' []))
        \<and> (status (assess_control fs c) = ''Missing''
           \<longleftrightarrow> \<not> check_artifact_exists fs (dict_get c ''Policy/Config Artifact'' [])))
   \<and> (status (assess_control fs c) = ''Not Applicable''
        \<longrightarrow> reason (assess_control fs c) = ''No artifact specified'')
   \<and> (status (assess_control fs c) = ''Implemented''
        \<longrightarrow> reason (assess_control fs c) = ''Artifact found'')
   \<and> (status (assess_control fs c) = ''Missing''
        \<longrightarrow> reason (assess_control fs c) = ''Artifact not found'')
   \<and> layer_number (assess_control fs c) = dict_get c ''Layer #'' []
   \<and> layer_name (assess_control fs c) = dict_get c ''Layer Name'' []
   \<and> control_group (assess_control fs c) = dict_get c ''Control Group'' []
   \<and> control (assess_control fs c) = dict_get c ''Control'' []
   \<and> artifact (assess_control fs c) = dict_get c ''Policy/Config Artifact'' []
   \<and> component (assess_control fs c) = dict_get c ''Component (Rust/K8s/Web3)'' []
   \<and> test_category (assess_control fs c) = dict_get c ''Test Category'' []
   \<and> metric_kpi (assess_control fs c) = dict_get c ''Metric/KPI'' []
   \<and> evidence (assess_control fs c) = dict_get c ''Evidence to Store'' []
   \<and> (dict_get c ''Policy/Config Artifact'' [] = dict_get c' ''Policy/Config Artifact'' []
        \<and> check_artifact_exists fs (dict_get c ''Policy/Config Artifact'' [])
            = check_artifact_exists fs' (dict_get c' ''Policy/Config Artifact'' [])
        \<longrightarrow> status (assess_control fs c) = status (assess_control fs' c'))"
proof -
  have fields:
    "layer_number (assess_control fs c) = dict_get c ''Layer #'' []
     \<and> layer_name (assess_control fs c) = dict_get c ''Layer Name'' []
     \<and> control_group (assess_control fs c) = dict_get c ''Control Group'' []
     \<and> control (assess_control fs c) = dict_get c ''Control'' []
     \<and> artifact (assess_control fs c) = dict_get c ''Policy/Config Artifact'' []
     \<and> component (assess_control fs c) = dict_get c ''Component (Rust/K8s/Web3)'' []
     \<and> test_category (assess_control fs c) = dict_get c ''Test Category'' []
     \<and> metric_kpi (assess_control fs c) = dict_get c ''Metric/KPI'' []
     \<and> evidence (assess_control fs c) = dict_get c ''Evidence to Store'' []"
    by (simp add: assess_control_def Let_def split_def)
  have same: "dict_get c ''Policy/Config Artifact'' [] = dict_get c' ''Policy/Config Artifact'' []
        \<and> check_artifact_exists fs (dict_get c ''Policy/Config Artifact'' [])
            = check_artifact_exists fs' (dict_get c' ''Policy/Config Artifact'' [])
        \<longrightarrow> status (assess_control fs c) = status (assess_control fs' c')"
  proof (intro impI, elim conjE)
    assume a: "dict_get c ''Policy/Config Artifact'' [] = dict_get c' ''Policy/Config Artifact'' []"
      and b: "check_artifact_exists fs (dict_get c ''Policy/Config Artifact'' [])
                = check_artifact_exists fs' (dict_get c' ''Policy/Config Artifact'' [])"
    have det: "\<And>(x::string) x' (y::bool) y'. x = x' \<Longrightarrow> y = y' \<Longrightarrow>
        (if x = [] then ''Not Applicable'' else if y then ''Implemented'' else ''Missing'')
        = (if x' = [] then ''Not Applicable'' else if y' then ''Implemented'' else ''Missing'')"
      by simp
    show "status (assess_control fs c) = status (assess_control fs' c')"
      unfolding status_assess_control by (rule det [OF a b])
  qed
  show ?thesis
    using fields same by (simp add: status_assess_control reason_assess_control)
qed

text \<open>
  The amended claim C1 at the three kinds of record: an existing directory, a pattern
  without a match, no artifact.
\<close>

theorem assess_control_status_and_reason_witness:
  "status (assess_control fs_example control_docs) = ''Implemented''
   \<and> reason (assess_control fs_example control_docs) = ''Artifact found''
   \<and> status (assess_control fs_example control_glob_missing) = ''Missing''
   \<and> reason (assess_control fs_example control_glob_missing) = ''Artifact not found''
   \<and> status (assess_control fs_example control_na) = ''Not Applicable''
   \<and> reason (assess_control fs_example control_na) = ''No artifact specified''
   \<and> status (assess_control fs_empty control_docs) = status (assess_control fs_example control_glob_missing)"
  using assess_control_status_and_reason [of fs_example control_docs control_docs fs_example]
        assess_control_status_and_reason [of fs_example control_glob_missing control_docs fs_empty]
        assess_control_status_and_reason [of fs_example control_na control_na fs_example]
  by (simp add: status_assess_control reason_assess_control dict_get_def control_na_def control_docs_def control_glob_missing_def
      check_artifact_exists_def fs_example_def fs_empty_def os_path_exists_def)

text \<open>
  Claim C4, as stated, has every specification with a glob metacharacter resolved by a
  glob match. \<^verbatim>\<open>docs/[ab].md\<close> has the metacharacter \<^verbatim>\<open>[\<close> and the glob matches
  \<^verbatim>\<open>docs/a.md\<close>, but the resolver tests \<^verbatim>\<open>*\<close> and \<^verbatim>\<open>?\<close> only: it looks for a path
  of that literal name and answers no.
\<close>

theorem check_artifact_exists_bracket_counterexample:
  "spec_has_glob_metacharacter ''docs/[ab].md''
   \<and> glob_glob fs_example ''docs/[ab].md'' = [''docs/a.md'']
   \<and> check_artifact_exists fs_example ''docs/[ab].md'' = False"
  by (simp add: spec_has_glob_metacharacter_def check_artifact_exists_def fs_example_def
      os_path_exists_def)

text \<open>
  Claim C4, amended: the resolver answers no for the empty specification; for one that
  contains \<^verbatim>\<open>*\<close> or \<^verbatim>\<open>?\<close> it answers yes exactly when the recursive glob has a
  match; for every other one (bracket patterns included) it answers yes exactly when
  \<^verbatim>\<open>os.stat\<close> of the exact path succeeds.
\<close>

theorem check_artifact_exists_cases:
  "(spec = [] \<longrightarrow> check_artifact_exists fs spec = False)
   \<and> (CHR ''*'' \<in> set spec \<or> CHR ''?'' \<in> set spec \<longrightarrow>
        check_artifact_exists fs spec = (glob_glob fs spec \<noteq> []))
   \<and> (spec \<noteq> [] \<and> CHR ''*'' \<notin> set spec \<and> CHR ''?'' \<notin> set spec \<longrightarrow>
        check_artifact_exists fs spec = (os_stat fs spec = StatOk))"
  by (auto simp add: check_artifact_exists_def os_path_exists_def)

text \<open>
  The amended claim C4 on the empty specification, two patterns, a literal path and a
  bracket pattern.
\<close>

theorem check_artifact_exists_cases_witness:
  "check_artifact_exists fs_example [] = False
   \<and> check_artifact_exists fs_example ''docs/*.md'' = True
   \<and> check_artifact_exists fs_example ''nonexistent/**/*.conf'' = False
   \<and> check_artifact_exists fs_example ''docs'' = True
   \<and> check_artifact_exists fs_example ''docs/[ab].md'' = False"
  using check_artifact_exists_cases [of "[]" fs_example]
        check_artifact_exists_cases [of "''docs/*.md''" fs_example]
        check_artifact_exists_cases [of "''nonexistent/**/*.conf''" fs_example]
        check_artifact_exists_cases [of "''docs''" fs_example]
        check_artifact_exists_cases [of "''docs/[ab].md''" fs_example]
  by (simp add: fs_example_def)

text \<open>
  Claim C8, as stated, gives a control whose existence check meets a permission denial
  a status that differs from \<^verbatim>\<open>Missing\<close>. The assessment of such a control is
  \<^verbatim>\<open>Missing\<close>, and equal in every field to the assessment on a filesystem where the
  path does not exist.
\<close>

theorem io_error_reported_missing_counterexample:
  "os_stat fs_example ''secrets/key.pem'' = StatPermissionDenied
   \<and> os_stat fs_empty ''secrets/key.pem'' = StatNotFound
   \<and> status (assess_control fs_example control_denied) = ''Missing''
   \<and> assess_control fs_example control_denied = assess_control fs_empty control_denied"
  by (simp add: assess_control_def Let_def dict_get_def control_denied_def
      check_artifact_exists_def fs_example_def fs_empty_def os_path_exists_def)

text \<open>
  Claim C8, amended: when \<^verbatim>\<open>os.stat\<close> of a literal artifact path fails, for whatever
  reason, the control is reported \<^verbatim>\<open>Missing\<close> with reason \<^verbatim>\<open>Artifact not found\<close>, and
  the assessment is the one of a path that is not found.
\<close>

theorem io_error_reported_missing:
  assumes "dict_get c ''Policy/Config Artifact'' [] = p"
    and "p \<noteq> []" and "CHR ''*'' \<notin> set p" and "CHR ''?'' \<notin> set p"
    and "os_stat fs p \<noteq> StatOk"
  shows "status (assess_control fs c) = ''Missing''
         \<and> reason (assess_control fs c) = ''Artifact not found''
         \<and> assess_control fs c = assess_control (fs\<lparr>os_stat := (os_stat fs)(p := StatNotFound)\<rparr>) c"
  using assms by (simp add: assess_control_def Let_def check_artifact_exists_def os_path_exists_def)

text \<open>
  The amended claim C8 at the control whose artifact may not be read.
\<close>

theorem io_error_reported_missing_witness:
  "status (assess_control fs_example control_denied) = ''Missing''
   \<and> reason (assess_control fs_example control_denied) = ''Artifact not found''"
proof -
  have p: "dict_get control_denied ''Policy/Config Artifact'' [] = ''secrets/key.pem''"
    by (simp add: dict_get_def control_denied_def)
  have s: "os_stat fs_example ''secrets/key.pem'' \<noteq> StatOk"
    by (simp add: fs_example_def)
  have "''secrets/key.pem'' \<noteq> []" and "CHR ''*'' \<notin> set ''secrets/key.pem''"
    and "CHR ''?'' \<notin> set ''secrets/key.pem''"
    by simp_all
  from io_error_reported_missing [OF p this s] show ?thesis
    by blast
qed

section \<open>Aggregator\<close>

lemma percent_if_positive_eq:
  "percent_if_positive x y = Inr (if y > 0 then real x / real y * 100 else 0)"
  by (simp add: percent_if_positive_def truediv_def)

lemma percent_in_range:
  assumes "x \<le> y"
  shows "0 \<le> (if y > 0 then real x / real y * 100 else 0)
         \<and> (if y > 0 then real x / real y * 100 else 0) \<le> 100"
proof (cases "y > 0")
  case True
  then have "real x / real y \<le> 1" using assms by simp
  then have "real x / real y * 100 \<le> 1 * 100"
    by (rule mult_right_mono) simp
  moreover have "0 \<le> real x / real y * 100" by simp
  ultimately show ?thesis using True by (simp del: times_divide_eq_left)
next
  case False
  then show ?thesis by simp
qed

lemma sum_list_ones: "(\<Sum>a\<leftarrow>xs. (1::nat)) = length xs"
  by (induction xs) simp_all

lemma generate_summary_eq:
  "generate_summary clk as t =
     Inr (\<lparr> generated_at = Isoformat (clk t),
            total_controls = length as,
            implemented = length (filter (\<lambda>a. status a = ''Implemented'') as),
            missing = length (filter (\<lambda>a. status a = ''Missing'') as),
            not_applicable = length (filter (\<lambda>a. status a = ''Not Applicable'') as),
            applicable = length (filter (\<lambda>a. status a = ''Implemented'') as)
                         + length (filter (\<lambda>a. status a = ''Missing'') as),
            compliance_rate =
              (if length (filter (\<lambda>a. status a = ''Implemented'') as)
                    + length (filter (\<lambda>a. status a = ''Missing'') as) > 0
               then real (length (filter (\<lambda>a. status a = ''Implemented'') as))
                    / real (length (filter (\<lambda>a. status a = ''Implemented'') as)
                            + length (filter (\<lambda>a. status a = ''Missing'') as)) * 100
               else 0),
            layer_statistics = foldl layer_step [] as \<rparr>, Suc t)"
  unfolding generate_summary_def Let_def percent_if_positive_eq sum_list_ones
  by simp

lemma keys_map_entry: "map fst (AList.map_entry k f al) = map fst al"
  by (induction al) simp_all

lemma update_absent: "k \<notin> set (map fst al) \<Longrightarrow> AList.update k v al = al @ [(k, v)]"
  by (induction al) auto

lemma sum_map_entry:
  fixes g :: "'v \<Rightarrow> nat"
  assumes "k \<in> set (map fst al)" and "\<And>v. g (f v) = g v + d"
  shows "(\<Sum>p\<leftarrow>AList.map_entry k f al. g (snd p)) = (\<Sum>p\<leftarrow>al. g (snd p)) + d"
  using assms(1) by (induction al) (auto simp add: assms(2))

lemma keys_layer_step:
  "map fst (layer_step acc a) =
     (if layer_number a \<in> set (map fst acc) then map fst acc
      else map fst acc @ [layer_number a])"
  by (simp add: layer_step_def Let_def keys_map_entry update_absent)

lemma keys_layer_fold:
  "map fst (foldl layer_step [] as) = rev (remdups (rev (map layer_number as)))"
proof (induction as rule: rev_induct)
  case Nil
  show ?case by simp
next
  case (snoc a as)
  have "set (map fst (foldl layer_step [] as)) = set (map layer_number as)"
    unfolding snoc.IH by simp
  then show ?case
    using snoc.IH by (simp add: keys_layer_step)
qed

lemma lookup_layer_step:
  "map_of (layer_step acc a) k =
     (if k = layer_number a then
        (let old = (case map_of acc k of
                      None \<Rightarrow> \<lparr>layer_stats.implemented = 0, missing = 0, not_applicable = 0\<rparr>
                    | Some s \<Rightarrow> s)
         in Some (if status a = ''Implemented''
                    then old\<lparr>layer_stats.implemented := layer_stats.implemented old + 1\<rparr>
                  else if status a = ''Missing''
                    then old\<lparr>layer_stats.missing := layer_stats.missing old + 1\<rparr>
                  else if status a = ''Not Applicable''
                    then old\<lparr>layer_stats.not_applicable := layer_stats.not_applicable old + 1\<rparr>
                  else old))
      else map_of acc k)"
proof (cases "layer_number a \<in> set (map fst acc)")
  case True
  then obtain s where "map_of acc (layer_number a) = Some s"
    by (metis map_of_eq_None_iff not_None_eq set_map)
  with True show ?thesis
    by (simp add: layer_step_def Let_def AList.map_of_map_entry)
next
  case False
  then have "map_of acc (layer_number a) = None"
    by (simp add: map_of_eq_None_iff)
  with False show ?thesis
    by (simp add: layer_step_def Let_def AList.map_of_map_entry AList.update_conv')
qed

lemma lookup_layer_fold:
  "map_of (foldl layer_step [] as) k =
     (if k \<in> set (map layer_number as)
      then Some \<lparr> layer_stats.implemented =
                    length (filter (\<lambda>a. layer_number a = k \<and> status a = ''Implemented'') as),
                  missing =
                    length (filter (\<lambda>a. layer_number a = k \<and> status a = ''Missing'') as),
                  not_applicable =
                    length (filter (\<lambda>a. layer_number a = k \<and> status a = ''Not Applicable'') as) \<rparr>
      else None)"
proof (induction as rule: rev_induct)
  case Nil
  show ?case by simp
next
  case (snoc a as)
  have none: "length (filter (\<lambda>x. layer_number x = k \<and> P x) as) = 0"
    if "k \<notin> set (map layer_number as)" for P
    using that by (induction as) auto
  show ?case
  proof (cases "k = layer_number a")
    case False
    then show ?thesis
      using snoc.IH by (simp add: lookup_layer_step)
  next
    case True
    show ?thesis
    proof (cases "k \<in> set (map layer_number as)")
      case True
      with \<open>k = layer_number a\<close> snoc.IH show ?thesis
        by (simp add: lookup_layer_step Let_def)
    next
      case False
      with \<open>k = layer_number a\<close> snoc.IH none [OF False] show ?thesis
        by (simp add: lookup_layer_step Let_def)
    qed
  qed
qed

lemma sums_layer_step:
  "(\<Sum>p\<leftarrow>layer_step acc a. layer_stats.implemented (snd p))
     = (\<Sum>p\<leftarrow>acc. layer_stats.implemented (snd p)) + (if status a = ''Implemented'' then 1 else 0)"
  "(\<Sum>p\<leftarrow>layer_step acc a. layer_stats.missing (snd p))
     = (\<Sum>p\<leftarrow>acc. layer_stats.missing (snd p)) + (if status a = ''Missing'' then 1 else 0)"
  "(\<Sum>p\<leftarrow>layer_step acc a. layer_stats.not_applicable (snd p))
     = (\<Sum>p\<leftarrow>acc. layer_stats.not_applicable (snd p))
       + (if status a = ''Not Applicable'' then 1 else 0)"
proof -
  define z where "z = \<lparr>layer_stats.implemented = 0, missing = 0, not_applicable = 0\<rparr>"
  define acc1 where
    "acc1 = (if layer_number a \<notin> set (map fst acc) then AList.update (layer_number a) z acc else acc)"
  have present: "layer_number a \<in> set (map fst acc1)"
    by (simp add: acc1_def update_absent)
  have same:
    "(\<Sum>p\<leftarrow>acc1. layer_stats.implemented (snd p)) = (\<Sum>p\<leftarrow>acc. layer_stats.implemented (snd p))"
    "(\<Sum>p\<leftarrow>acc1. layer_stats.missing (snd p)) = (\<Sum>p\<leftarrow>acc. layer_stats.missing (snd p))"
    "(\<Sum>p\<leftarrow>acc1. layer_stats.not_applicable (snd p)) = (\<Sum>p\<leftarrow>acc. layer_stats.not_applicable (snd p))"
    by (simp_all add: acc1_def update_absent z_def)
  have step: "layer_step acc a =
     (if status a = ''Implemented''
        then AList.map_entry (layer_number a)
               (\<lambda>s. s\<lparr>layer_stats.implemented := layer_stats.implemented s + 1\<rparr>) acc1
      else if status a = ''Missing''
        then AList.map_entry (layer_number a)
               (\<lambda>s. s\<lparr>layer_stats.missing := layer_stats.missing s + 1\<rparr>) acc1
      else if status a = ''Not Applicable''
        then AList.map_entry (layer_number a)
               (\<lambda>s. s\<lparr>layer_stats.not_applicable := layer_stats.not_applicable s + 1\<rparr>) acc1
      else acc1)"
    by (simp add: layer_step_def Let_def acc1_def z_def)
  show "(\<Sum>p\<leftarrow>layer_step acc a. layer_stats.implemented (snd p))
     = (\<Sum>p\<leftarrow>acc. layer_stats.implemented (snd p)) + (if status a = ''Implemented'' then 1 else 0)"
    unfolding step same(1) [symmetric]
    by (simp add: sum_map_entry [OF present, where d = 1] sum_map_entry [OF present, where d = 0])
  show "(\<Sum>p\<leftarrow>layer_step acc a. layer_stats.missing (snd p))
     = (\<Sum>p\<leftarrow>acc. layer_stats.missing (snd p)) + (if status a = ''Missing'' then 1 else 0)"
    unfolding step same(2) [symmetric]
    by (simp add: sum_map_entry [OF present, where d = 1] sum_map_entry [OF present, where d = 0])
  show "(\<Sum>p\<leftarrow>layer_step acc a. layer_stats.not_applicable (snd p))
     = (\<Sum>p\<leftarrow>acc. layer_stats.not_applicable (snd p))
       + (if status a = ''Not Applicable'' then 1 else 0)"
    unfolding step same(3) [symmetric]
    by (simp add: sum_map_entry [OF present, where d = 1] sum_map_entry [OF present, where d = 0])
qed

lemma sums_layer_fold:
  "(\<Sum>p\<leftarrow>foldl layer_step [] as. layer_stats.implemented (snd p))
     = length (filter (\<lambda>a. status a = ''Implemented'') as)"
  "(\<Sum>p\<leftarrow>foldl layer_step [] as. layer_stats.missing (snd p))
     = length (filter (\<lambda>a. status a = ''Missing'') as)"
  "(\<Sum>p\<leftarrow>foldl layer_step [] as. layer_stats.not_applicable (snd p))
     = length (filter (\<lambda>a. status a = ''Not Applicable'') as)"
  by (induction as rule: rev_induct) (simp_all add: sums_layer_step)

lemma three_statuses_partition:
  assumes "\<forall>a\<in>set as. status a = ''Implemented'' \<or> status a = ''Missing''
                       \<or> status a = ''Not Applicable''"
  shows "length (filter (\<lambda>a. P a \<and> status a = ''Implemented'') as)
         + length (filter (\<lambda>a. P a \<and> status a = ''Missing'') as)
         + length (filter (\<lambda>a. P a \<and> status a = ''Not Applicable'') as)
         = length (filter P as)"
  using assms by (induction as) auto

lemma generate_summary_returns:
  "\<exists>s. generate_summary clk as t = Inr (s, Suc t)
       \<and> generated_at s = Isoformat (clk t)
       \<and> summary.total_controls s = length as
       \<and> summary.implemented s = length (filter (\<lambda>a. status a = ''Implemented'') as)
       \<and> summary.missing s = length (filter (\<lambda>a. status a = ''Missing'') as)
       \<and> summary.not_applicable s = length (filter (\<lambda>a. status a = ''Not Applicable'') as)
       \<and> applicable s = summary.implemented s + summary.missing s
       \<and> summary.compliance_rate s =
           (if applicable s > 0
            then real (summary.implemented s) / real (applicable s) * 100 else 0)
       \<and> layer_statistics s = foldl layer_step [] as"
  by (simp add: generate_summary_eq)

lemma entry_layer_step:
  assumes "status a = ''Implemented'' \<or> status a = ''Missing'' \<or> status a = ''Not Applicable''"
  shows "layer_stats.implemented
           (dict_get (layer_step acc a) (layer_number a)
              \<lparr>layer_stats.implemented = 0, missing = 0, not_applicable = 0\<rparr>)
         = layer_stats.implemented
             (dict_get acc (layer_number a)
                \<lparr>layer_stats.implemented = 0, missing = 0, not_applicable = 0\<rparr>)
           + (if status a = ''Implemented'' then 1 else 0)"
    and "layer_stats.missing
           (dict_get (layer_step acc a) (layer_number a)
              \<lparr>layer_stats.implemented = 0, missing = 0, not_applicable = 0\<rparr>)
         = layer_stats.missing
             (dict_get acc (layer_number a)
                \<lparr>layer_stats.implemented = 0, missing = 0, not_applicable = 0\<rparr>)
           + (if status a = ''Missing'' then 1 else 0)"
    and "layer_stats.not_applicable
           (dict_get (layer_step acc a) (layer_number a)
              \<lparr>layer_stats.implemented = 0, missing = 0, not_applicable = 0\<rparr>)
         = layer_stats.not_applicable
             (dict_get acc (layer_number a)
                \<lparr>layer_stats.implemented = 0, missing = 0, not_applicable = 0\<rparr>)
           + (if status a = ''Not Applicable'' then 1 else 0)"
  using assms
  by (auto simp add: dict_get_def lookup_layer_step Let_def split: option.splits)

text \<open>
  Claim C3: for a sequence of assessments (each with one of the three statuses), the
  three global counters sum to the number of controls; the layer entries are the
  layer keys in the order of their first occurrence; the three counters of a layer sum
  to the number of assessments with that layer key; the layer counters sum over the
  layers to the global counters; and one more assessment adds one to exactly one global
  counter and to exactly one counter of the entry of its own layer, every other layer
  entry staying as it is.
\<close>

theorem aggregation_identity:
  assumes wf: "\<forall>a\<in>set as. status a = ''Implemented'' \<or> status a = ''Missing''
                         \<or> status a = ''Not Applicable''"
  shows "\<exists>s. generate_summary clk as t = Inr (s, Suc t)
     \<and> summary.implemented s + summary.missing s + summary.not_applicable s
         = summary.total_controls s
     \<and> summary.total_controls s = length as
     \<and> map fst (layer_statistics s) = rev (remdups (rev (map layer_number as)))
     \<and> (\<forall>k st. (k, st) \<in> set (layer_statistics s) \<longrightarrow>
           layer_stats.implemented st + layer_stats.missing st + layer_stats.not_applicable st
             = length (filter (\<lambda>a. layer_number a = k) as))
     \<and> (\<Sum>p\<leftarrow>layer_statistics s. layer_stats.implemented (snd p)) = summary.implemented s
     \<and> (\<Sum>p\<leftarrow>layer_statistics s. layer_stats.missing (snd p)) = summary.missing s
     \<and> (\<Sum>p\<leftarrow>layer_statistics s. layer_stats.not_applicable (snd p)) = summary.not_applicable s
     \<and> (\<forall>a. status a = ''Implemented'' \<or> status a = ''Missing'' \<or> status a = ''Not Applicable''
           \<longrightarrow> (\<exists>s'. generate_summary clk (as @ [a]) t = Inr (s', Suc t)
             \<and> summary.implemented s'
                 = summary.implemented s + (if status a = ''Implemented'' then 1 else 0)
             \<and> summary.missing s' = summary.missing s + (if status a = ''Missing'' then 1 else 0)
             \<and> summary.not_applicable s'
                 = summary.not_applicable s + (if status a = ''Not Applicable'' then 1 else 0)
             \<and> layer_stats.implemented
                  (dict_get (layer_statistics s') (layer_number a)
                     \<lparr>layer_stats.implemented = 0, missing = 0, not_applicable = 0\<rparr>)
                 = layer_stats.implemented
                     (dict_get (layer_statistics s) (layer_number a)
                        \<lparr>layer_stats.implemented = 0, missing = 0, not_applicable = 0\<rparr>)
                   + (if status a = ''Implemented'' then 1 else 0)
             \<and> layer_stats.missing
                  (dict_get (layer_statistics s') (layer_number a)
                     \<lparr>layer_stats.implemented = 0, missing = 0, not_applicable = 0\<rparr>)
                 = layer_stats.missing
                     (dict_get (layer_statistics s) (layer_number a)
                        \<lparr>layer_stats.implemented = 0, missing = 0, not_applicable = 0\<rparr>)
                   + (if status a = ''Missing'' then 1 else 0)
             \<and> layer_stats.not_applicable
                  (dict_get (layer_statistics s') (layer_number a)
                     \<lparr>layer_stats.implemented = 0, missing = 0, not_applicable = 0\<rparr>)
                 = layer_stats.not_applicable
                     (dict_get (layer_statistics s) (layer_number a)
                        \<lparr>layer_stats.implemented = 0, missing = 0, not_applicable = 0\<rparr>)
                   + (if status a = ''Not Applicable'' then 1 else 0)
             \<and> (\<forall>k. k \<noteq> layer_number a \<longrightarrow>
                   map_of (layer_statistics s') k = map_of (layer_statistics s) k)))"
proof -
  obtain s where s: "generate_summary clk as t = Inr (s, Suc t)"
    and total: "summary.total_controls s = length as"
    and impl: "summary.implemented s = length (filter (\<lambda>a. status a = ''Implemented'') as)"
    and miss: "summary.missing s = length (filter (\<lambda>a. status a = ''Missing'') as)"
    and na: "summary.not_applicable s = length (filter (\<lambda>a. status a = ''Not Applicable'') as)"
    and layers: "layer_statistics s = foldl layer_step [] as"
    using generate_summary_returns [of clk as t] by blast
  have identity: "summary.implemented s + summary.missing s + summary.not_applicable s
                    = summary.total_controls s"
    using three_statuses_partition [OF wf, of "\<lambda>a. True"] by (simp add: total impl miss na)
  have keys: "map fst (layer_statistics s) = rev (remdups (rev (map layer_number as)))"
    by (simp add: layers keys_layer_fold)
  have per_layer: "\<forall>k st. (k, st) \<in> set (layer_statistics s) \<longrightarrow>
           layer_stats.implemented st + layer_stats.missing st + layer_stats.not_applicable st
             = length (filter (\<lambda>a. layer_number a = k) as)"
  proof (intro allI impI)
    fix k st
    assume mem: "(k, st) \<in> set (layer_statistics s)"
    have "distinct (map fst (layer_statistics s))"
      unfolding keys by simp
    with mem have "map_of (foldl layer_step [] as) k = Some st"
      by (simp add: layers)
    then have st: "st = \<lparr> layer_stats.implemented =
                    length (filter (\<lambda>a. layer_number a = k \<and> status a = ''Implemented'') as),
                  missing =
                    length (filter (\<lambda>a. layer_number a = k \<and> status a = ''Missing'') as),
                  not_applicable =
                    length (filter (\<lambda>a. layer_number a = k \<and> status a = ''Not Applicable'') as) \<rparr>"
      unfolding lookup_layer_fold by (simp split: if_splits)
    show "layer_stats.implemented st + layer_stats.missing st + layer_stats.not_applicable st
             = length (filter (\<lambda>a. layer_number a = k) as)"
      using three_statuses_partition [OF wf, of "\<lambda>a. layer_number a = k"]
      by (simp add: st)
  qed
  have sums:
    "(\<Sum>p\<leftarrow>layer_statistics s. layer_stats.implemented (snd p)) = summary.implemented s"
    "(\<Sum>p\<leftarrow>layer_statistics s. layer_stats.missing (snd p)) = summary.missing s"
    "(\<Sum>p\<leftarrow>layer_statistics s. layer_stats.not_applicable (snd p)) = summary.not_applicable s"
    by (simp_all add: layers sums_layer_fold impl miss na)
  have step: "\<exists>s'. generate_summary clk (as @ [a]) t = Inr (s', Suc t)
             \<and> summary.implemented s'
                 = summary.implemented s + (if status a = ''Implemented'' then 1 else 0)
             \<and> summary.missing s' = summary.missing s + (if status a = ''Missing'' then 1 else 0)
             \<and> summary.not_applicable s'
                 = summary.not_applicable s + (if status a = ''Not Applicable'' then 1 else 0)
             \<and> layer_stats.implemented
                  (dict_get (layer_statistics s') (layer_number a)
                     \<lparr>layer_stats.implemented = 0, missing = 0, not_applicable = 0\<rparr>)
                 = layer_stats.implemented
                     (dict_get (layer_statistics s) (layer_number a)
                        \<lparr>layer_stats.implemented = 0, missing = 0, not_applicable = 0\<rparr>)
                   + (if status a = ''Implemented'' then 1 else 0)
             \<and> layer_stats.missing
                  (dict_get (layer_statistics s') (layer_number a)
                     \<lparr>layer_stats.implemented = 0, missing = 0, not_applicable = 0\<rparr>)
                 = layer_stats.missing
                     (dict_get (layer_statistics s) (layer_number a)
                        \<lparr>layer_stats.implemented = 0, missing = 0, not_applicable = 0\<rparr>)
                   + (if status a = ''Missing'' then 1 else 0)
             \<and> layer_stats.not_applicable
                  (dict_get (layer_statistics s') (layer_number a)
                     \<lparr>layer_stats.implemented = 0, missing = 0, not_applicable = 0\<rparr>)
                 = layer_stats.not_applicable
                     (dict_get (layer_statistics s) (layer_number a)
                        \<lparr>layer_stats.implemented = 0, missing = 0, not_applicable = 0\<rparr>)
                   + (if status a = ''Not Applicable'' then 1 else 0)
             \<and> (\<forall>k. k \<noteq> layer_number a \<longrightarrow>
                   map_of (layer_statistics s') k = map_of (layer_statistics s) k)"
    if a: "status a = ''Implemented'' \<or> status a = ''Missing'' \<or> status a = ''Not Applicable''"
    for a
  proof -
    obtain s' where s': "generate_summary clk (as @ [a]) t = Inr (s', Suc t)"
      and impl': "summary.implemented s'
                    = length (filter (\<lambda>a. status a = ''Implemented'') (as @ [a]))"
      and miss': "summary.missing s' = length (filter (\<lambda>a. status a = ''Missing'') (as @ [a]))"
      and na': "summary.not_applicable s'
                    = length (filter (\<lambda>a. status a = ''Not Applicable'') (as @ [a]))"
      and layers': "layer_statistics s' = foldl layer_step [] (as @ [a])"
      using generate_summary_returns [of clk "as @ [a]" t] by blast
    have next_layers: "layer_statistics s' = layer_step (layer_statistics s) a"
      by (simp add: layers' layers)
    have others: "\<forall>k. k \<noteq> layer_number a \<longrightarrow>
                   map_of (layer_statistics s') k = map_of (layer_statistics s) k"
      by (simp add: next_layers lookup_layer_step)
    show ?thesis
      apply (rule exI [of _ s'])
      apply (intro conjI)
             apply (rule s')
            apply (simp add: impl' impl)
           apply (simp add: miss' miss)
          apply (simp add: na' na)
         apply (simp only: next_layers entry_layer_step(1) [OF a])
        apply (simp only: next_layers entry_layer_step(2) [OF a])
       apply (simp only: next_layers entry_layer_step(3) [OF a])
      apply (rule others)
      done
  qed
  show ?thesis
    apply (rule exI [of _ s])
    apply (intro conjI)
            apply (rule s)
           apply (rule identity)
          apply (rule total)
         apply (rule keys)
        apply (rule per_layer)
       apply (rule sums(1))
      apply (rule sums(2))
     apply (rule sums(3))
    using step apply blast
    done
qed

text \<open>
  Claim C3 on the three controls of the example checklist, assessed on the example
  filesystem: one control of each status, in the layers 1, 1 and 2.
\<close>

theorem aggregation_identity_witness:
  "map status (map (assess_control fs_example) checklist_example)
     = [''Not Applicable'', ''Implemented'', ''Missing'']
   \<and> map_sum id (summary.total_controls \<circ> fst)
        (generate_summary clock_example (map (assess_control fs_example) checklist_example) 0)
      = Inr 3
   \<and> map_sum id (map fst \<circ> layer_statistics \<circ> fst)
        (generate_summary clock_example (map (assess_control fs_example) checklist_example) 0)
      = Inr [''1'', ''2'']"
proof -
  have st: "map status (map (assess_control fs_example) checklist_example)
     = [''Not Applicable'', ''Implemented'', ''Missing'']"
    by (simp add: checklist_example_def status_assess_control dict_get_def control_na_def
        control_docs_def control_glob_missing_def check_artifact_exists_def fs_example_def
        os_path_exists_def)
  have ln: "map layer_number (map (assess_control fs_example) checklist_example)
     = [''1'', ''1'', ''2'']"
    by (simp add: checklist_example_def assess_control_def Let_def split_def dict_get_def
        control_na_def control_docs_def control_glob_missing_def)
  have wf: "\<forall>a\<in>set (map (assess_control fs_example) checklist_example).
              status a = ''Implemented'' \<or> status a = ''Missing'' \<or> status a = ''Not Applicable''"
    by (simp add: status_assess_control)
  have len: "length (map (assess_control fs_example) checklist_example) = 3"
    by (simp add: checklist_example_def)
  from aggregation_identity [OF wf, of clock_example 0]
  obtain s where
    "generate_summary clock_example (map (assess_control fs_example) checklist_example) 0
       = Inr (s, Suc 0)"
    "summary.total_controls s = length (map (assess_control fs_example) checklist_example)"
    "map fst (layer_statistics s)
       = rev (remdups (rev (map layer_number (map (assess_control fs_example) checklist_example))))"
    by blast
  then show ?thesis
    unfolding ln len using st by simp
qed

section \<open>Compliance rates\<close>

lemma count_fold:
  "foldl (count_step fs) (i, m) cs =
     (i + length (filter (\<lambda>c. status (assess_control fs c) = ''Implemented'') cs),
      m + length (filter (\<lambda>c. status (assess_control fs c) = ''Missing'') cs))"
  by (induction cs arbitrary: i m) (simp_all add: count_step_def Let_def status_assess_control)

lemma map_entry_twice:
  "AList.map_entry k g (AList.map_entry k f al) = AList.map_entry k (\<lambda>v. g (f v)) al"
  by (induction al) simp_all

lemma invariant_map_entry:
  assumes "\<forall>p\<in>set al. I (snd p)" and "\<And>v. I v \<Longrightarrow> I (f v)"
  shows "\<forall>p\<in>set (AList.map_entry k f al). I (snd p)"
  using assms(1) by (induction al) (auto simp add: assms(2))

lemma invariant_layer_metric_step:
  assumes "\<forall>p\<in>set acc. layer_metric.implemented (snd p) + layer_metric.missing (snd p)
                           \<le> layer_total (snd p)"
  shows "\<forall>p\<in>set (layer_metric_step fs acc c).
           layer_metric.implemented (snd p) + layer_metric.missing (snd p) \<le> layer_total (snd p)"
proof -
  define k where "k = dict_get c ''Layer #'' ''Unknown''"
  define acc1 where
    "acc1 = (if k \<notin> set (map fst acc)
             then AList.update k \<lparr>layer_total = 0, implemented = 0, missing = 0\<rparr> acc else acc)"
  have inv1: "\<forall>p\<in>set acc1. layer_metric.implemented (snd p) + layer_metric.missing (snd p)
                           \<le> layer_total (snd p)"
    using assms by (auto simp add: acc1_def update_absent)
  define f where
    "f = (\<lambda>m::layer_metric. if dict_get c ''Policy/Config Artifact'' [] \<noteq> []
                  \<and> check_artifact_exists fs (dict_get c ''Policy/Config Artifact'' [])
               then m\<lparr>layer_total := layer_total m + 1,
                      layer_metric.implemented := layer_metric.implemented m + 1\<rparr>
               else if dict_get c ''Policy/Config Artifact'' [] \<noteq> []
               then m\<lparr>layer_total := layer_total m + 1,
                      layer_metric.missing := layer_metric.missing m + 1\<rparr>
               else m\<lparr>layer_total := layer_total m + 1\<rparr>)"
  have step: "layer_metric_step fs acc c = AList.map_entry k f acc1"
    by (simp add: layer_metric_step_def Let_def k_def acc1_def map_entry_twice f_def)
  have pres: "layer_metric.implemented (f v) + layer_metric.missing (f v) \<le> layer_total (f v)"
    if "layer_metric.implemented v + layer_metric.missing v \<le> layer_total v" for v :: layer_metric
    using that by (simp add: f_def)
  show ?thesis
    unfolding step by (rule invariant_map_entry [OF inv1 pres])
qed

lemma invariant_layer_metric_fold:
  "\<forall>p\<in>set (foldl (layer_metric_step fs) [] cs).
     layer_metric.implemented (snd p) + layer_metric.missing (snd p) \<le> layer_total (snd p)"
proof (induction cs rule: rev_induct)
  case Nil
  show ?case by simp
next
  case (snoc c cs)
  show ?case
    using invariant_layer_metric_step [OF snoc.IH] by simp
qed

lemma calculate_compliance_metrics_returns:
  "\<exists>cm. calculate_compliance_metrics fs cs = Inr cm
       \<and> compliance_metrics.total_controls cm = length cs
       \<and> implemented_controls cm
           = length (filter (\<lambda>c. status (assess_control fs c) = ''Implemented'') cs)
       \<and> missing_controls cm
           = length (filter (\<lambda>c. status (assess_control fs c) = ''Missing'') cs)
       \<and> compliance_metrics.compliance_rate cm =
           (if compliance_metrics.total_controls cm > 0
            then real (implemented_controls cm) / real (compliance_metrics.total_controls cm) * 100
            else 0)
       \<and> layer_metrics cm = foldl (layer_metric_step fs) [] cs"
  by (simp add: calculate_compliance_metrics_def Let_def percent_if_positive_eq count_fold)

lemma layer_statistics_line_eq:
  "layer_statistics_line k st =
     Inr [Lit ''Layer '', PStr k, Lit '': '', PNat (layer_stats.implemented st), Lit ''/'',
          PNat (layer_stats.implemented st + layer_stats.missing st), Lit '' ('',
          PFloat1 (if layer_stats.implemented st + layer_stats.missing st > 0
                   then real (layer_stats.implemented st)
                        / real (layer_stats.implemented st + layer_stats.missing st) * 100
                   else 0),
          Lit ''%)'']"
  by (simp add: layer_statistics_line_def Let_def percent_if_positive_eq)

lemma layer_statistics_lines_eq:
  "layer_statistics_lines d =
     Inr (map (\<lambda>p. [Lit ''Layer '', PStr (fst p), Lit '': '',
                     PNat (layer_stats.implemented (snd p)), Lit ''/'',
                     PNat (layer_stats.implemented (snd p) + layer_stats.missing (snd p)),
                     Lit '' ('',
                     PFloat1 (if layer_stats.implemented (snd p) + layer_stats.missing (snd p) > 0
                              then real (layer_stats.implemented (snd p))
                                   / real (layer_stats.implemented (snd p)
                                           + layer_stats.missing (snd p)) * 100
                              else 0),
                     Lit ''%)'']) d)"
  by (induction d rule: layer_statistics_lines.induct) (simp_all add: layer_statistics_line_eq)

lemma generate_text_report_returns:
  "\<exists>ls. generate_text_report as s = Inr ls"
  by (simp add: generate_text_report_def layer_statistics_lines_eq)

lemma layer_table_row_eq:
  "layer_table_row k m =
     Inr \<lparr> row_layer_num = k,
           row_layer_name = get_layer_name k,
           row_status_class =
             (if (if layer_total m > 0
                  then real (layer_metric.implemented m) / real (layer_total m) * 100 else 0) \<ge> 90
              then ''compliant''
              else if (if layer_total m > 0
                       then real (layer_metric.implemented m) / real (layer_total m) * 100
                       else 0) \<ge> 70
              then ''warning'' else ''non-compliant''),
           row_rate = (if layer_total m > 0
                       then real (layer_metric.implemented m) / real (layer_total m) * 100 else 0),
           row_implemented = layer_metric.implemented m,
           row_total = layer_total m \<rparr>"
  by (simp add: layer_table_row_def Let_def percent_if_positive_eq)

lemma layer_table_rows_returns:
  "\<exists>rows. layer_table_rows d = Inr rows
      \<and> map row_rate rows
          = map (\<lambda>p. if layer_total (snd p) > 0
                      then real (layer_metric.implemented (snd p)) / real (layer_total (snd p)) * 100
                      else 0) d
      \<and> map row_implemented rows = map (\<lambda>p. layer_metric.implemented (snd p)) d
      \<and> map row_total rows = map (\<lambda>p. layer_total (snd p)) d
      \<and> map row_layer_num rows = map fst d"
proof (induction d rule: layer_table_rows.induct)
  case 1
  show ?case by simp
next
  case (2 layer_num metrics rest)
  then obtain rows where "layer_table_rows rest = Inr rows"
    and "map row_rate rows
          = map (\<lambda>p. if layer_total (snd p) > 0
                      then real (layer_metric.implemented (snd p)) / real (layer_total (snd p)) * 100
                      else 0) rest"
    and "map row_implemented rows = map (\<lambda>p. layer_metric.implemented (snd p)) rest"
    and "map row_total rows = map (\<lambda>p. layer_total (snd p)) rest"
    and "map row_layer_num rows = map fst rest"
    by (auto simp add: layer_table_row_eq)
  then show ?case
    by (simp add: layer_table_row_eq)
qed

lemma generate_html_report_returns:
  "\<exists>h. generate_html_report clk am cm t = (Inr h, Suc t)
      \<and> generated h = Strftime (clk t)
      \<and> overall_compliance h = compliance_metrics.compliance_rate cm
      \<and> vulnerabilities_count h = dict_get (vulnerabilities am) ''count'' (CStr ''N/A'')
      \<and> vulnerabilities_critical h = dict_get (vulnerabilities am) ''critical'' (CInt 0)
      \<and> security_metrics h = security_metrics_block
      \<and> layer_table_rows (layer_metrics cm) = Inr (layer_rows h)"
proof -
  obtain rows where "layer_table_rows (layer_metrics cm) = Inr rows"
    using layer_table_rows_returns [of "layer_metrics cm"] by blast
  then show ?thesis
    by (simp add: generate_html_report_def Let_def)
qed

lemma keys_layer_metric_step:
  "map fst (layer_metric_step fs acc c) =
     (if dict_get c ''Layer #'' ''Unknown'' \<in> set (map fst acc) then map fst acc
      else map fst acc @ [dict_get c ''Layer #'' ''Unknown''])"
  by (simp add: layer_metric_step_def Let_def keys_map_entry update_absent)

lemma keys_layer_metric_fold:
  "map fst (foldl (layer_metric_step fs) [] cs)
     = rev (remdups (rev (map (\<lambda>c. dict_get c ''Layer #'' ''Unknown'') cs)))"
proof (induction cs rule: rev_induct)
  case Nil
  show ?case by simp
next
  case (snoc c cs)
  have "set (map fst (foldl (layer_metric_step fs) [] cs))
          = set (map (\<lambda>c. dict_get c ''Layer #'' ''Unknown'') cs)"
    unfolding snoc.IH by simp
  then show ?case
    using snoc.IH by (simp add: keys_layer_metric_step)
qed

lemma lookup_layer_metric_step:
  "map_of (layer_metric_step fs acc c) k =
     (if k = dict_get c ''Layer #'' ''Unknown'' then
        (let old = (case map_of acc k of
                      None \<Rightarrow> \<lparr>layer_total = 0, implemented = 0, missing = 0\<rparr>
                    | Some m \<Rightarrow> m)
         in Some (if status (assess_control fs c) = ''Implemented''
                    then old\<lparr>layer_total := layer_total old + 1,
                            layer_metric.implemented := layer_metric.implemented old + 1\<rparr>
                  else if status (assess_control fs c) = ''Missing''
                    then old\<lparr>layer_total := layer_total old + 1,
                            layer_metric.missing := layer_metric.missing old + 1\<rparr>
                  else old\<lparr>layer_total := layer_total old + 1\<rparr>))
      else map_of acc k)"
proof (cases "dict_get c ''Layer #'' ''Unknown'' \<in> set (map fst acc)")
  case True
  then obtain m where "map_of acc (dict_get c ''Layer #'' ''Unknown'') = Some m"
    by (metis map_of_eq_None_iff not_None_eq set_map)
  with True show ?thesis
    by (simp add: layer_metric_step_def Let_def AList.map_of_map_entry status_assess_control)
next
  case False
  then have "map_of acc (dict_get c ''Layer #'' ''Unknown'') = None"
    by (simp add: map_of_eq_None_iff)
  with False show ?thesis
    by (simp add: layer_metric_step_def Let_def AList.map_of_map_entry AList.update_conv'
        status_assess_control)
qed

lemma lookup_layer_metric_fold:
  "map_of (foldl (layer_metric_step fs) [] cs) k =
     (if k \<in> set (map (\<lambda>c. dict_get c ''Layer #'' ''Unknown'') cs)
      then Some \<lparr> layer_total =
                    length (filter (\<lambda>c. dict_get c ''Layer #'' ''Unknown'' = k) cs),
                  implemented =
                    length (filter (\<lambda>c. dict_get c ''Layer #'' ''Unknown'' = k
                                         \<and> status (assess_control fs c) = ''Implemented'') cs),
                  missing =
                    length (filter (\<lambda>c. dict_get c ''Layer #'' ''Unknown'' = k
                                         \<and> status (assess_control fs c) = ''Missing'') cs) \<rparr>
      else None)"
proof (induction cs rule: rev_induct)
  case Nil
  show ?case by simp
next
  case (snoc c cs)
  have none: "length (filter (\<lambda>x. dict_get x ''Layer #'' ''Unknown'' = k \<and> P x) cs) = 0"
    if "k \<notin> set (map (\<lambda>c. dict_get c ''Layer #'' ''Unknown'') cs)" for P
    using that by (induction cs) auto
  show ?case
  proof (cases "k = dict_get c ''Layer #'' ''Unknown''")
    case False
    then show ?thesis
      using snoc.IH by (simp add: lookup_layer_metric_step)
  next
    case True
    show ?thesis
    proof (cases "k \<in> set (map (\<lambda>c. dict_get c ''Layer #'' ''Unknown'') cs)")
      case True
      with \<open>k = dict_get c ''Layer #'' ''Unknown''\<close> snoc.IH show ?thesis
        by (simp add: lookup_layer_metric_step Let_def)
    next
      case False
      with \<open>k = dict_get c ''Layer #'' ''Unknown''\<close> snoc.IH
        none [OF False, of "\<lambda>x. True"] none [OF False] show ?thesis
        by (simp add: lookup_layer_metric_step Let_def)
    qed
  qed
qed

lemma entries_layer_metric_fold:
  assumes "(k, m) \<in> set (foldl (layer_metric_step fs) [] cs)"
  shows "layer_total m = length (filter (\<lambda>c. dict_get c ''Layer #'' ''Unknown'' = k) cs)
         \<and> layer_metric.implemented m
             = length (filter (\<lambda>c. dict_get c ''Layer #'' ''Unknown'' = k
                                  \<and> status (assess_control fs c) = ''Implemented'') cs)
         \<and> layer_metric.missing m
             = length (filter (\<lambda>c. dict_get c ''Layer #'' ''Unknown'' = k
                                  \<and> status (assess_control fs c) = ''Missing'') cs)"
proof -
  have "distinct (map fst (foldl (layer_metric_step fs) [] cs))"
    unfolding keys_layer_metric_fold by simp
  with assms have "map_of (foldl (layer_metric_step fs) [] cs) k = Some m"
    by simp
  then show ?thesis
    unfolding lookup_layer_metric_fold by (auto split: if_splits)
qed

lemma entries_layer_fold:
  assumes "(k, st) \<in> set (foldl layer_step [] as)"
  shows "layer_stats.implemented st
           = length (filter (\<lambda>a. layer_number a = k \<and> status a = ''Implemented'') as)
         \<and> layer_stats.missing st
             = length (filter (\<lambda>a. layer_number a = k \<and> status a = ''Missing'') as)
         \<and> layer_stats.not_applicable st
             = length (filter (\<lambda>a. layer_number a = k \<and> status a = ''Not Applicable'') as)"
proof -
  have "distinct (map fst (foldl layer_step [] as))"
    unfolding keys_layer_fold by simp
  with assms have "map_of (foldl layer_step [] as) k = Some st"
    by simp
  then show ?thesis
    unfolding lookup_layer_fold by (auto split: if_splits)
qed

lemma generate_text_report_eq:
  "generate_text_report as s =
     Inr ([[Lit ''SECURITY COMPLIANCE REPORT''],
           [Lit (replicate 50 CHR ''='')],
           [Lit ''Generated: '', PTime (generated_at s)],
           [],
           [Lit ''SUMMARY''],
           [Lit (replicate 20 CHR ''-'')],
           [Lit ''Total Controls: '', PNat (summary.total_controls s)],
           [Lit ''Implemented: '', PNat (summary.implemented s)],
           [Lit ''Missing: '', PNat (summary.missing s)],
           [Lit ''Not Applicable: '', PNat (summary.not_applicable s)],
           [Lit ''Compliance Rate: '', PFloat2 (summary.compliance_rate s), Lit ''%''],
           [],
           [Lit ''LAYER STATISTICS''],
           [Lit (replicate 20 CHR ''-'')]]
          @ map (\<lambda>p. [Lit ''Layer '', PStr (fst p), Lit '': '',
                      PNat (layer_stats.implemented (snd p)), Lit ''/'',
                      PNat (layer_stats.implemented (snd p) + layer_stats.missing (snd p)),
                      Lit '' ('',
                      PFloat1 (if layer_stats.implemented (snd p) + layer_stats.missing (snd p) > 0
                               then real (layer_stats.implemented (snd p))
                                    / real (layer_stats.implemented (snd p)
                                            + layer_stats.missing (snd p)) * 100
                               else 0),
                      Lit ''%)'']) (layer_statistics s)
          @ [[]]
          @ missing_controls_lines as)"
  by (simp add: generate_text_report_def layer_statistics_lines_eq)

lemma example_statuses:
  "status (assess_control fs_example control_na) = ''Not Applicable''"
  "status (assess_control fs_example control_docs) = ''Implemented''"
  "status (assess_control fs_example control_glob_missing) = ''Missing''"
  by (simp_all add: status_assess_control dict_get_def control_na_def control_docs_def
      control_glob_missing_def check_artifact_exists_def fs_example_def os_path_exists_def)

text \<open>
  Claim C2, as stated, has every rate equal to implemented / applicable * 100 with
  applicable = implemented + missing. On the example checklist (one control of each
  status) the dashboard counts one implemented and one missing control and computes
  the rate 100/3, not 50: its denominator is the number of all controls, the one
  without an artifact included.
\<close>

theorem dashboard_rate_counterexample:
  "map_sum id implemented_controls (calculate_compliance_metrics fs_example checklist_example)
     = Inr 1
   \<and> map_sum id missing_controls (calculate_compliance_metrics fs_example checklist_example)
     = Inr 1
   \<and> map_sum id compliance_metrics.compliance_rate
        (calculate_compliance_metrics fs_example checklist_example) = Inr (100 / 3)
   \<and> (100 / 3 :: real) \<noteq> real 1 / real (1 + 1) * 100"
proof -
  obtain cm where "calculate_compliance_metrics fs_example checklist_example = Inr cm"
    and "compliance_metrics.total_controls cm = length checklist_example"
    and "implemented_controls cm
           = length (filter (\<lambda>c. status (assess_control fs_example c) = ''Implemented'')
                       checklist_example)"
    and "missing_controls cm
           = length (filter (\<lambda>c. status (assess_control fs_example c) = ''Missing'')
                       checklist_example)"
    and "compliance_metrics.compliance_rate cm =
           (if compliance_metrics.total_controls cm > 0
            then real (implemented_controls cm) / real (compliance_metrics.total_controls cm) * 100
            else 0)"
    using calculate_compliance_metrics_returns [of fs_example checklist_example] by blast
  then show ?thesis
    by (simp add: checklist_example_def example_statuses)
qed

text \<open>
  Claim C2, amended: in the report script the global rate is
  implemented / applicable * 100 with applicable = implemented + missing, and 0 when
  applicable is 0, and the rate of each layer line of the text report is the same
  formula on the counters of the layer, which count the implemented and the missing
  assessments of that layer; in the dashboard the global rate is
  implemented / total * 100, where total counts every control of the checklist, and 0
  when the checklist is empty, and the rate of each row of the layer table is the same
  formula on the counters of the layer, whose total counts every control of that
  layer, those without an artifact included. None of the computations raises: each
  function returns a value.
\<close>

theorem compliance_rate_formulas:
  "(\<exists>s. generate_summary clk as t = Inr (s, Suc t)
       \<and> summary.implemented s = length (filter (\<lambda>a. status a = ''Implemented'') as)
       \<and> summary.missing s = length (filter (\<lambda>a. status a = ''Missing'') as)
       \<and> applicable s = summary.implemented s + summary.missing s
       \<and> summary.compliance_rate s =
           (if applicable s > 0
            then real (summary.implemented s) / real (applicable s) * 100 else 0)
       \<and> (\<forall>k st. (k, st) \<in> set (layer_statistics s) \<longrightarrow>
             layer_stats.implemented st
               = length (filter (\<lambda>a. layer_number a = k \<and> status a = ''Implemented'') as)
             \<and> layer_stats.missing st
               = length (filter (\<lambda>a. layer_number a = k \<and> status a = ''Missing'') as))
       \<and> (\<exists>ls. generate_text_report as s = Inr ls
             \<and> ls ! 10 = [Lit ''Compliance Rate: '', PFloat2 (summary.compliance_rate s),
                           Lit ''%'']
             \<and> drop 14 ls =
                 map (\<lambda>p. [Lit ''Layer '', PStr (fst p), Lit '': '',
                             PNat (layer_stats.implemented (snd p)), Lit ''/'',
                             PNat (layer_stats.implemented (snd p) + layer_stats.missing (snd p)),
                             Lit '' ('',
                             PFloat1 (if layer_stats.implemented (snd p)
                                          + layer_stats.missing (snd p) > 0
                                      then real (layer_stats.implemented (snd p))
                                           / real (layer_stats.implemented (snd p)
                                                   + layer_stats.missing (snd p)) * 100
                                      else 0),
                             Lit ''%)'']) (layer_statistics s)
                 @ [[]] @ missing_controls_lines as))
   \<and> layer_statistics_line k st =
       Inr [Lit ''Layer '', PStr k, Lit '': '', PNat (layer_stats.implemented st), Lit ''/'',
            PNat (layer_stats.implemented st + layer_stats.missing st), Lit '' ('',
            PFloat1 (if layer_stats.implemented st + layer_stats.missing st > 0
                     then real (layer_stats.implemented st)
                          / real (layer_stats.implemented st + layer_stats.missing st) * 100
                     else 0),
            Lit ''%)'']
   \<and> (\<exists>cm. calculate_compliance_metrics fs cs = Inr cm
       \<and> compliance_metrics.total_controls cm = length cs
       \<and> implemented_controls cm
           = length (filter (\<lambda>c. status (assess_control fs c) = ''Implemented'') cs)
       \<and> missing_controls cm
           = length (filter (\<lambda>c. status (assess_control fs c) = ''Missing'') cs)
       \<and> compliance_metrics.compliance_rate cm =
           (if compliance_metrics.total_controls cm > 0
            then real (implemented_controls cm) / real (compliance_metrics.total_controls cm) * 100
            else 0)
       \<and> map fst (layer_metrics cm)
           = rev (remdups (rev (map (\<lambda>c. dict_get c ''Layer #'' ''Unknown'') cs)))
       \<and> (\<forall>k m. (k, m) \<in> set (layer_metrics cm) \<longrightarrow>
             layer_total m = length (filter (\<lambda>c. dict_get c ''Layer #'' ''Unknown'' = k) cs)
             \<and> layer_metric.implemented m
                 = length (filter (\<lambda>c. dict_get c ''Layer #'' ''Unknown'' = k
                                      \<and> status (assess_control fs c) = ''Implemented'') cs)
             \<and> layer_metric.missing m
                 = length (filter (\<lambda>c. dict_get c ''Layer #'' ''Unknown'' = k
                                      \<and> status (assess_control fs c) = ''Missing'') cs))
       \<and> (\<exists>h. generate_html_report clk' am cm t' = (Inr h, Suc t')
             \<and> overall_compliance h = compliance_metrics.compliance_rate cm
             \<and> map row_layer_num (layer_rows h) = map fst (layer_metrics cm)
             \<and> map row_implemented (layer_rows h)
                 = map (\<lambda>p. layer_metric.implemented (snd p)) (layer_metrics cm)
             \<and> map row_total (layer_rows h) = map (\<lambda>p. layer_total (snd p)) (layer_metrics cm)
             \<and> map row_rate (layer_rows h)
                 = map (\<lambda>p. if layer_total (snd p) > 0
                             then real (layer_metric.implemented (snd p))
                                  / real (layer_total (snd p)) * 100
                             else 0) (layer_metrics cm)))
   \<and> (\<exists>r. layer_table_row k' m = Inr r
       \<and> row_rate r = (if layer_total m > 0
                        then real (layer_metric.implemented m) / real (layer_total m) * 100
                        else 0))"
proof (intro conjI)
  obtain s where s: "generate_summary clk as t = Inr (s, Suc t)"
    and counts: "summary.implemented s = length (filter (\<lambda>a. status a = ''Implemented'') as)"
      "summary.missing s = length (filter (\<lambda>a. status a = ''Missing'') as)"
      "applicable s = summary.implemented s + summary.missing s"
      "summary.compliance_rate s =
           (if applicable s > 0
            then real (summary.implemented s) / real (applicable s) * 100 else 0)"
    and layers: "layer_statistics s = foldl layer_step [] as"
    using generate_summary_returns [of clk as t] by blast
  have per_layer: "\<forall>k st. (k, st) \<in> set (layer_statistics s) \<longrightarrow>
             layer_stats.implemented st
               = length (filter (\<lambda>a. layer_number a = k \<and> status a = ''Implemented'') as)
             \<and> layer_stats.missing st
               = length (filter (\<lambda>a. layer_number a = k \<and> status a = ''Missing'') as)"
    unfolding layers using entries_layer_fold by blast
  have report: "\<exists>ls. generate_text_report as s = Inr ls
             \<and> ls ! 10 = [Lit ''Compliance Rate: '', PFloat2 (summary.compliance_rate s),
                           Lit ''%'']
             \<and> drop 14 ls =
                 map (\<lambda>p. [Lit ''Layer '', PStr (fst p), Lit '': '',
                             PNat (layer_stats.implemented (snd p)), Lit ''/'',
                             PNat (layer_stats.implemented (snd p) + layer_stats.missing (snd p)),
                             Lit '' ('',
                             PFloat1 (if layer_stats.implemented (snd p)
                                          + layer_stats.missing (snd p) > 0
                                      then real (layer_stats.implemented (snd p))
                                           / real (layer_stats.implemented (snd p)
                                                   + layer_stats.missing (snd p)) * 100
                                      else 0),
                             Lit ''%)'']) (layer_statistics s)
                 @ [[]] @ missing_controls_lines as"
    unfolding generate_text_report_eq by simp
  show "\<exists>s. generate_summary clk as t = Inr (s, Suc t)
       \<and> summary.implemented s = length (filter (\<lambda>a. status a = ''Implemented'') as)
       \<and> summary.missing s = length (filter (\<lambda>a. status a = ''Missing'') as)
       \<and> applicable s = summary.implemented s + summary.missing s
       \<and> summary.compliance_rate s =
           (if applicable s > 0
            then real (summary.implemented s) / real (applicable s) * 100 else 0)
       \<and> (\<forall>k st. (k, st) \<in> set (layer_statistics s) \<longrightarrow>
             layer_stats.implemented st
               = length (filter (\<lambda>a. layer_number a = k \<and> status a = ''Implemented'') as)
             \<and> layer_stats.missing st
               = length (filter (\<lambda>a. layer_number a = k \<and> status a = ''Missing'') as))
       \<and> (\<exists>ls. generate_text_report as s = Inr ls
             \<and> ls ! 10 = [Lit ''Compliance Rate: '', PFloat2 (summary.compliance_rate s),
                           Lit ''%'']
             \<and> drop 14 ls =
                 map (\<lambda>p. [Lit ''Layer '', PStr (fst p), Lit '': '',
                             PNat (layer_stats.implemented (snd p)), Lit ''/'',
                             PNat (layer_stats.implemented (snd p) + layer_stats.missing (snd p)),
                             Lit '' ('',
                             PFloat1 (if layer_stats.implemented (snd p)
                                          + layer_stats.missing (snd p) > 0
                                      then real (layer_stats.implemented (snd p))
                                           / real (layer_stats.implemented (snd p)
                                                   + layer_stats.missing (snd p)) * 100
                                      else 0),
                             Lit ''%)'']) (layer_statistics s)
                 @ [[]] @ missing_controls_lines as)"
    apply (rule exI [of _ s])
    apply (intro conjI)
          apply (rule s)
         apply (rule counts(1))
        apply (rule counts(2))
       apply (rule counts(3))
      apply (rule counts(4))
     apply (rule per_layer)
    apply (rule report)
    done
next
  show "layer_statistics_line k st =
       Inr [Lit ''Layer '', PStr k, Lit '': '', PNat (layer_stats.implemented st), Lit ''/'',
            PNat (layer_stats.implemented st + layer_stats.missing st), Lit '' ('',
            PFloat1 (if layer_stats.implemented st + layer_stats.missing st > 0
                     then real (layer_stats.implemented st)
                          / real (layer_stats.implemented st + layer_stats.missing st) * 100
                     else 0),
            Lit ''%)'']"
    by (rule layer_statistics_line_eq)
next
  obtain cm where cm: "calculate_compliance_metrics fs cs = Inr cm"
    and counts: "compliance_metrics.total_controls cm = length cs"
      "implemented_controls cm
           = length (filter (\<lambda>c. status (assess_control fs c) = ''Implemented'') cs)"
      "missing_controls cm
           = length (filter (\<lambda>c. status (assess_control fs c) = ''Missing'') cs)"
      "compliance_metrics.compliance_rate cm =
           (if compliance_metrics.total_controls cm > 0
            then real (implemented_controls cm) / real (compliance_metrics.total_controls cm) * 100
            else 0)"
    and layers: "layer_metrics cm = foldl (layer_metric_step fs) [] cs"
    using calculate_compliance_metrics_returns [of fs cs] by blast
  have keys: "map fst (layer_metrics cm)
           = rev (remdups (rev (map (\<lambda>c. dict_get c ''Layer #'' ''Unknown'') cs)))"
    by (simp add: layers keys_layer_metric_fold)
  have per_layer: "\<forall>k m. (k, m) \<in> set (layer_metrics cm) \<longrightarrow>
             layer_total m = length (filter (\<lambda>c. dict_get c ''Layer #'' ''Unknown'' = k) cs)
             \<and> layer_metric.implemented m
                 = length (filter (\<lambda>c. dict_get c ''Layer #'' ''Unknown'' = k
                                      \<and> status (assess_control fs c) = ''Implemented'') cs)
             \<and> layer_metric.missing m
                 = length (filter (\<lambda>c. dict_get c ''Layer #'' ''Unknown'' = k
                                      \<and> status (assess_control fs c) = ''Missing'') cs)"
    unfolding layers using entries_layer_metric_fold by blast
  obtain h where h: "generate_html_report clk' am cm t' = (Inr h, Suc t')"
    and overall: "overall_compliance h = compliance_metrics.compliance_rate cm"
    and rows: "layer_table_rows (layer_metrics cm) = Inr (layer_rows h)"
    using generate_html_report_returns [of clk' am cm t'] by blast
  have page: "\<exists>h. generate_html_report clk' am cm t' = (Inr h, Suc t')
             \<and> overall_compliance h = compliance_metrics.compliance_rate cm
             \<and> map row_layer_num (layer_rows h) = map fst (layer_metrics cm)
             \<and> map row_implemented (layer_rows h)
                 = map (\<lambda>p. layer_metric.implemented (snd p)) (layer_metrics cm)
             \<and> map row_total (layer_rows h) = map (\<lambda>p. layer_total (snd p)) (layer_metrics cm)
             \<and> map row_rate (layer_rows h)
                 = map (\<lambda>p. if layer_total (snd p) > 0
                             then real (layer_metric.implemented (snd p))
                                  / real (layer_total (snd p)) * 100
                             else 0) (layer_metrics cm)"
    using h overall rows layer_table_rows_returns [of "layer_metrics cm"] by auto
  show "\<exists>cm. calculate_compliance_metrics fs cs = Inr cm
       \<and> compliance_metrics.total_controls cm = length cs
       \<and> implemented_controls cm
           = length (filter (\<lambda>c. status (assess_control fs c) = ''Implemented'') cs)
       \<and> missing_controls cm
           = length (filter (\<lambda>c. status (assess_control fs c) = ''Missing'') cs)
       \<and> compliance_metrics.compliance_rate cm =
           (if compliance_metrics.total_controls cm > 0
            then real (implemented_controls cm) / real (compliance_metrics.total_controls cm) * 100
            else 0)
       \<and> map fst (layer_metrics cm)
           = rev (remdups (rev (map (\<lambda>c. dict_get c ''Layer #'' ''Unknown'') cs)))
       \<and> (\<forall>k m. (k, m) \<in> set (layer_metrics cm) \<longrightarrow>
             layer_total m = length (filter (\<lambda>c. dict_get c ''Layer #'' ''Unknown'' = k) cs)
             \<and> layer_metric.implemented m
                 = length (filter (\<lambda>c. dict_get c ''Layer #'' ''Unknown'' = k
                                      \<and> status (assess_control fs c) = ''Implemented'') cs)
             \<and> layer_metric.missing m
                 = length (filter (\<lambda>c. dict_get c ''Layer #'' ''Unknown'' = k
                                      \<and> status (assess_control fs c) = ''Missing'') cs))
       \<and> (\<exists>h. generate_html_report clk' am cm t' = (Inr h, Suc t')
             \<and> overall_compliance h = compliance_metrics.compliance_rate cm
             \<and> map row_layer_num (layer_rows h) = map fst (layer_metrics cm)
             \<and> map row_implemented (layer_rows h)
                 = map (\<lambda>p. layer_metric.implemented (snd p)) (layer_metrics cm)
             \<and> map row_total (layer_rows h) = map (\<lambda>p. layer_total (snd p)) (layer_metrics cm)
             \<and> map row_rate (layer_rows h)
                 = map (\<lambda>p. if layer_total (snd p) > 0
                             then real (layer_metric.implemented (snd p))
                                  / real (layer_total (snd p)) * 100
                             else 0) (layer_metrics cm))"
    apply (rule exI [of _ cm])
    apply (intro conjI)
          apply (rule cm)
         apply (rule counts(1))
        apply (rule counts(2))
       apply (rule counts(3))
      apply (rule counts(4))
     apply (rule keys)
     apply (rule per_layer)
    apply (rule page)
    done
next
  show "\<exists>r. layer_table_row k' m = Inr r
       \<and> row_rate r = (if layer_total m > 0
                        then real (layer_metric.implemented m) / real (layer_total m) * 100
                        else 0)"
    by (simp add: layer_table_row_eq)
qed

text \<open>
  The amended claim C2 on the example checklist: the report script computes 50, the
  dashboard 100/3; the layer table of the dashboard has the layers 1 and 2, with 2
  controls and 1 control, the control of layer 1 that has no artifact included, and
  the rates 50 and 0.
\<close>

theorem compliance_rate_formulas_witness:
  "map_sum id (summary.compliance_rate \<circ> fst)
     (generate_summary clock_example (map (assess_control fs_example) checklist_example) 0)
     = Inr 50
   \<and> (\<exists>cm. calculate_compliance_metrics fs_example checklist_example = Inr cm
        \<and> compliance_metrics.compliance_rate cm = 100 / 3
        \<and> map fst (layer_metrics cm) = [''1'', ''2'']
        \<and> map (\<lambda>p. layer_total (snd p)) (layer_metrics cm) = [2, 1]
        \<and> map (\<lambda>p. layer_metric.implemented (snd p)) (layer_metrics cm) = [1, 0])"
proof -
  have key: "map (\<lambda>c. dict_get c ''Layer #'' ''Unknown'') checklist_example
               = [''1'', ''1'', ''2'']"
    by (simp add: checklist_example_def dict_get_def control_na_def control_docs_def
        control_glob_missing_def)
  have keys: "dict_get control_na ''Layer #'' ''Unknown'' = ''1''"
    "dict_get control_docs ''Layer #'' ''Unknown'' = ''1''"
    "dict_get control_glob_missing ''Layer #'' ''Unknown'' = ''2''"
    by (simp_all add: dict_get_def control_na_def control_docs_def control_glob_missing_def)
  from compliance_rate_formulas
         [of clock_example "map (assess_control fs_example) checklist_example" 0
             "[]" "\<lparr>layer_stats.implemented = 0, missing = 0, not_applicable = 0\<rparr>"
             fs_example checklist_example]
  obtain s cm where
    s: "generate_summary clock_example (map (assess_control fs_example) checklist_example) 0
       = Inr (s, Suc 0)"
    "summary.implemented s
       = length (filter (\<lambda>a. status a = ''Implemented'')
                   (map (assess_control fs_example) checklist_example))"
    "summary.missing s
       = length (filter (\<lambda>a. status a = ''Missing'')
                   (map (assess_control fs_example) checklist_example))"
    "applicable s = summary.implemented s + summary.missing s"
    "summary.compliance_rate s =
           (if applicable s > 0
            then real (summary.implemented s) / real (applicable s) * 100 else 0)"
    and cm: "calculate_compliance_metrics fs_example checklist_example = Inr cm"
    and cmc: "compliance_metrics.total_controls cm = length checklist_example"
    "implemented_controls cm
           = length (filter (\<lambda>c. status (assess_control fs_example c) = ''Implemented'')
                       checklist_example)"
    "compliance_metrics.compliance_rate cm =
           (if compliance_metrics.total_controls cm > 0
            then real (implemented_controls cm) / real (compliance_metrics.total_controls cm) * 100
            else 0)"
    and lk: "map fst (layer_metrics cm)
           = rev (remdups (rev (map (\<lambda>c. dict_get c ''Layer #'' ''Unknown'')
                                   checklist_example)))"
    and per_layer: "\<forall>k m. (k, m) \<in> set (layer_metrics cm) \<longrightarrow>
             layer_total m
               = length (filter (\<lambda>c. dict_get c ''Layer #'' ''Unknown'' = k) checklist_example)
             \<and> layer_metric.implemented m
                 = length (filter (\<lambda>c. dict_get c ''Layer #'' ''Unknown'' = k
                                      \<and> status (assess_control fs_example c) = ''Implemented'')
                             checklist_example)
             \<and> layer_metric.missing m
                 = length (filter (\<lambda>c. dict_get c ''Layer #'' ''Unknown'' = k
                                      \<and> status (assess_control fs_example c) = ''Missing'')
                             checklist_example)"
    by blast
  have report: "map_sum id (summary.compliance_rate \<circ> fst)
     (generate_summary clock_example (map (assess_control fs_example) checklist_example) 0)
     = Inr 50"
    using s by (simp add: checklist_example_def example_statuses)
  have rate: "compliance_metrics.compliance_rate cm = 100 / 3"
    using cmc by (simp add: checklist_example_def example_statuses)
  have lk': "map fst (layer_metrics cm) = [''1'', ''2'']"
    unfolding lk key by simp
  then obtain m1 m2 where entries: "layer_metrics cm = [(''1'', m1), (''2'', m2)]"
    by (auto simp add: map_eq_Cons_conv)
  have "(''1'', m1) \<in> set (layer_metrics cm)" and "(''2'', m2) \<in> set (layer_metrics cm)"
    by (simp_all add: entries)
  with per_layer have
    "layer_total m1
       = length (filter (\<lambda>c. dict_get c ''Layer #'' ''Unknown'' = ''1'') checklist_example)"
    "layer_metric.implemented m1
       = length (filter (\<lambda>c. dict_get c ''Layer #'' ''Unknown'' = ''1''
                            \<and> status (assess_control fs_example c) = ''Implemented'')
                   checklist_example)"
    "layer_total m2
       = length (filter (\<lambda>c. dict_get c ''Layer #'' ''Unknown'' = ''2'') checklist_example)"
    "layer_metric.implemented m2
       = length (filter (\<lambda>c. dict_get c ''Layer #'' ''Unknown'' = ''2''
                            \<and> status (assess_control fs_example c) = ''Implemented'')
                   checklist_example)"
    by blast+
  then have totals: "layer_total m1 = 2" "layer_metric.implemented m1 = 1"
    "layer_total m2 = 1" "layer_metric.implemented m2 = 0"
    by (simp_all add: checklist_example_def keys example_statuses)
  show ?thesis
    apply (rule conjI)
     apply (rule report)
    apply (rule exI [of _ cm])
    using cm rate lk' totals apply (simp add: entries)
    done
qed

text \<open>
  Claim C10: every rate that the two scripts compute lies between 0 and 100: the
  global rate of the summary and the rate of each layer line of the text report, the
  global rate of the dashboard and the rate of each row of its layer table. In each
  case the implemented count is at most the denominator.
\<close>

theorem compliance_rates_bounded:
  "(\<exists>s. generate_summary clk as t = Inr (s, Suc t)
       \<and> summary.implemented s \<le> applicable s
       \<and> 0 \<le> summary.compliance_rate s \<and> summary.compliance_rate s \<le> 100
       \<and> (\<exists>ls. layer_statistics_lines (layer_statistics s) = Inr ls
             \<and> (\<forall>l\<in>set ls. \<forall>r. PFloat1 r \<in> set l \<longrightarrow> 0 \<le> r \<and> r \<le> 100)))
   \<and> (\<exists>cm. calculate_compliance_metrics fs cs = Inr cm
       \<and> implemented_controls cm \<le> compliance_metrics.total_controls cm
       \<and> 0 \<le> compliance_metrics.compliance_rate cm
       \<and> compliance_metrics.compliance_rate cm \<le> 100
       \<and> (\<exists>rows. layer_table_rows (layer_metrics cm) = Inr rows
             \<and> (\<forall>r\<in>set rows. row_implemented r \<le> row_total r
                    \<and> 0 \<le> row_rate r \<and> row_rate r \<le> 100)))"
proof (intro conjI)
  obtain s where s: "generate_summary clk as t = Inr (s, Suc t)"
    and app: "applicable s = summary.implemented s + summary.missing s"
    and rate: "summary.compliance_rate s =
           (if applicable s > 0
            then real (summary.implemented s) / real (applicable s) * 100 else 0)"
    using generate_summary_returns [of clk as t] by blast
  have le: "summary.implemented s \<le> applicable s"
    by (simp add: app)
  have lines: "\<forall>l\<in>set ls. \<forall>r. PFloat1 r \<in> set l \<longrightarrow> 0 \<le> r \<and> r \<le> 100"
    if "layer_statistics_lines d = Inr ls" for d ls
  proof (intro ballI allI impI)
    fix l r
    assume "l \<in> set ls" and r: "PFloat1 r \<in> set l"
    define rate_of where
      "rate_of = (\<lambda>p :: string \<times> layer_stats.
          if layer_stats.implemented (snd p) + layer_stats.missing (snd p) > 0
          then real (layer_stats.implemented (snd p))
               / real (layer_stats.implemented (snd p) + layer_stats.missing (snd p)) * 100
          else 0)"
    define line_of where
      "line_of = (\<lambda>p :: string \<times> layer_stats.
          [Lit ''Layer '', PStr (fst p), Lit '': '',
           PNat (layer_stats.implemented (snd p)), Lit ''/'',
           PNat (layer_stats.implemented (snd p) + layer_stats.missing (snd p)),
           Lit '' ('', PFloat1 (rate_of p), Lit ''%)''])"
    have "ls = map line_of d"
      using that unfolding layer_statistics_lines_eq line_of_def rate_of_def by simp
    with \<open>l \<in> set ls\<close> obtain p where "l = line_of p"
      by auto
    with r have "r = rate_of p"
      by (simp add: line_of_def)
    then have "r = (if layer_stats.implemented (snd p) + layer_stats.missing (snd p) > 0
                     then real (layer_stats.implemented (snd p))
                          / real (layer_stats.implemented (snd p)
                                  + layer_stats.missing (snd p)) * 100
                     else 0)"
      by (simp add: rate_of_def)
    then show "0 \<le> r \<and> r \<le> 100"
      using percent_in_range [of "layer_stats.implemented (snd p)"
          "layer_stats.implemented (snd p) + layer_stats.missing (snd p)"]
      by simp
  qed
  show "\<exists>s. generate_summary clk as t = Inr (s, Suc t)
       \<and> summary.implemented s \<le> applicable s
       \<and> 0 \<le> summary.compliance_rate s \<and> summary.compliance_rate s \<le> 100
       \<and> (\<exists>ls. layer_statistics_lines (layer_statistics s) = Inr ls
             \<and> (\<forall>l\<in>set ls. \<forall>r. PFloat1 r \<in> set l \<longrightarrow> 0 \<le> r \<and> r \<le> 100))"
    apply (rule exI [of _ s])
    apply (intro conjI)
        apply (rule s)
       apply (rule le)
      apply (simp only: rate percent_in_range [OF le])
     apply (simp only: rate percent_in_range [OF le])
    using lines layer_statistics_lines_eq apply blast
    done
next
  obtain cm where cm: "calculate_compliance_metrics fs cs = Inr cm"
    and total: "compliance_metrics.total_controls cm = length cs"
    and impl: "implemented_controls cm
           = length (filter (\<lambda>c. status (assess_control fs c) = ''Implemented'') cs)"
    and rate: "compliance_metrics.compliance_rate cm =
           (if compliance_metrics.total_controls cm > 0
            then real (implemented_controls cm) / real (compliance_metrics.total_controls cm) * 100
            else 0)"
    and layers: "layer_metrics cm = foldl (layer_metric_step fs) [] cs"
    using calculate_compliance_metrics_returns [of fs cs] by blast
  have le: "implemented_controls cm \<le> compliance_metrics.total_controls cm"
    by (simp add: total impl)
  obtain rows where rows: "layer_table_rows (layer_metrics cm) = Inr rows"
    and rates: "map row_rate rows
          = map (\<lambda>p. if layer_total (snd p) > 0
                      then real (layer_metric.implemented (snd p)) / real (layer_total (snd p)) * 100
                      else 0) (layer_metrics cm)"
    and impls: "map row_implemented rows
          = map (\<lambda>p. layer_metric.implemented (snd p)) (layer_metrics cm)"
    and totals: "map row_total rows = map (\<lambda>p. layer_total (snd p)) (layer_metrics cm)"
    using layer_table_rows_returns [of "layer_metrics cm"] by blast
  have len: "length rows = length (layer_metrics cm)"
    using impls by (metis length_map)
  have row_ok: "\<forall>r\<in>set rows. row_implemented r \<le> row_total r
                    \<and> 0 \<le> row_rate r \<and> row_rate r \<le> 100"
  proof
    fix r
    assume "r \<in> set rows"
    then obtain i where i: "i < length rows" and r: "r = rows ! i"
      by (metis in_set_conv_nth)
    define p where "p = layer_metrics cm ! i"
    have "p \<in> set (foldl (layer_metric_step fs) [] cs)"
      using i len by (simp add: p_def layers [symmetric])
    then have inv: "layer_metric.implemented (snd p) \<le> layer_total (snd p)"
      using invariant_layer_metric_fold [of fs cs] by fastforce
    have "row_implemented r = layer_metric.implemented (snd p)"
      using i len arg_cong [OF impls, of "\<lambda>xs. xs ! i"] by (simp add: r p_def)
    moreover have "row_total r = layer_total (snd p)"
      using i len arg_cong [OF totals, of "\<lambda>xs. xs ! i"] by (simp add: r p_def)
    moreover have "row_rate r = (if layer_total (snd p) > 0
                      then real (layer_metric.implemented (snd p)) / real (layer_total (snd p)) * 100
                      else 0)"
      using i len arg_cong [OF rates, of "\<lambda>xs. xs ! i"] by (simp add: r p_def)
    ultimately show "row_implemented r \<le> row_total r \<and> 0 \<le> row_rate r \<and> row_rate r \<le> 100"
      using inv percent_in_range [OF inv] by simp
  qed
  show "\<exists>cm. calculate_compliance_metrics fs cs = Inr cm
       \<and> implemented_controls cm \<le> compliance_metrics.total_controls cm
       \<and> 0 \<le> compliance_metrics.compliance_rate cm
       \<and> compliance_metrics.compliance_rate cm \<le> 100
       \<and> (\<exists>rows. layer_table_rows (layer_metrics cm) = Inr rows
             \<and> (\<forall>r\<in>set rows. row_implemented r \<le> row_total r
                    \<and> 0 \<le> row_rate r \<and> row_rate r \<le> 100))"
    apply (rule exI [of _ cm])
    apply (intro conjI)
        apply (rule cm)
       apply (rule le)
      apply (simp only: rate percent_in_range [OF le])
     apply (simp only: rate percent_in_range [OF le])
    using rows row_ok apply blast
    done
qed

text \<open>
  Claim C10 on the example checklist: the rows of the layer table of the dashboard
  carry the rates 50 (layer 1: one of two controls) and 0 (layer 2).
\<close>

theorem compliance_rates_bounded_witness:
  "\<exists>rows. layer_table_rows (foldl (layer_metric_step fs_example) [] checklist_example) = Inr rows
      \<and> map row_rate rows = [50, 0]
      \<and> 0 \<le> row_rate (rows ! 0) \<and> row_rate (rows ! 0) \<le> 100
      \<and> 0 \<le> row_rate (rows ! 1) \<and> row_rate (rows ! 1) \<le> 100"
proof -
  have ev: "map_sum id (map row_rate)
     (layer_table_rows (foldl (layer_metric_step fs_example) [] checklist_example))
     = Inr [50, 0]"
    by (simp add: checklist_example_def layer_metric_step_def Let_def dict_get_def
        control_na_def control_docs_def control_glob_missing_def check_artifact_exists_def
        fs_example_def os_path_exists_def layer_table_row_eq)
  from compliance_rates_bounded [of clock_example "[]" 0 fs_example checklist_example]
  obtain cm rows where cm: "calculate_compliance_metrics fs_example checklist_example = Inr cm"
    and rows: "layer_table_rows (layer_metrics cm) = Inr rows"
    and bounded: "\<forall>r\<in>set rows. row_implemented r \<le> row_total r
                    \<and> 0 \<le> row_rate r \<and> row_rate r \<le> 100"
    by blast
  have "layer_metrics cm = foldl (layer_metric_step fs_example) [] checklist_example"
    using cm calculate_compliance_metrics_returns [of fs_example checklist_example] by auto
  with rows have rows':
    "layer_table_rows (foldl (layer_metric_step fs_example) [] checklist_example) = Inr rows"
    by simp
  with ev have rates: "map row_rate rows = [50, 0]"
    by simp
  then have "length rows = 2"
    by (metis length_map length_Cons list.size(3) One_nat_def Suc_1)
  then have m0: "rows ! 0 \<in> set rows" and m1: "rows ! 1 \<in> set rows"
    by simp_all
  have b0: "0 \<le> row_rate (rows ! 0) \<and> row_rate (rows ! 0) \<le> 100"
    using bspec [OF bounded m0] by (elim conjE) (intro conjI)
  have b1: "0 \<le> row_rate (rows ! 1) \<and> row_rate (rows ! 1) \<le> 100"
    using bspec [OF bounded m1] by (elim conjE) (intro conjI)
  show ?thesis
    using rows' rates b0 b1 by (intro exI [of _ rows]) (elim conjE, intro conjI)
qed

section \<open>Whole runs and their timestamps\<close>

lemma no_times_layer_lines:
  "layer_statistics_lines d = Inr ls \<Longrightarrow> concat (map line_times ls) = []"
  unfolding layer_statistics_lines_eq by (auto simp add: line_times_def)

lemma no_times_missing_controls: "concat (map line_times (missing_controls_lines as)) = []"
  by (auto simp add: missing_controls_lines_def Let_def line_times_def)

lemma text_report_times:
  "generate_text_report as s = Inr ls \<Longrightarrow> concat (map line_times ls) = [generated_at s]"
  by (auto simp add: generate_text_report_def layer_statistics_lines_eq line_times_def
      missing_controls_lines_def Let_def)

lemma main_compliance_report_success:
  assumes "os_path_exists (env_fs e) checklist_file"
    and "env_open_csv e checklist_file = Rows cs"
  shows "\<exists>s ls. generate_summary (env_clock e) (map (assess_control (env_fs e)) cs) (ticks w)
                  = Inr (s, Suc (ticks w))
           \<and> generated_at s = Isoformat (env_clock e (ticks w))
           \<and> generate_text_report (map (assess_control (env_fs e)) cs) s = Inr ls
           \<and> fst (main_compliance_report e w) = None
           \<and> ticks (snd (main_compliance_report e w)) = Suc (ticks w)
           \<and> files (snd (main_compliance_report e w))
               = AList.update ''security-compliance-report.json''
                   (JsonReport \<lparr> report_summary = s,
                                report_assessments = map (assess_control (env_fs e)) cs \<rparr>)
                   (AList.update ''security-compliance-report.txt'' (TextReport ls) (files w))"
proof -
  obtain s where s: "generate_summary (env_clock e) (map (assess_control (env_fs e)) cs) (ticks w)
                  = Inr (s, Suc (ticks w))"
    and g: "generated_at s = Isoformat (env_clock e (ticks w))"
    using generate_summary_returns by blast
  obtain ls where ls: "generate_text_report (map (assess_control (env_fs e)) cs) s = Inr ls"
    using generate_text_report_returns by blast
  show ?thesis
    using assms s g ls
    by (simp add: main_compliance_report_def load_checklist_def Let_def write_file_def
        print_lines_def generate_json_report_def)
qed

lemma generate_dashboard_success:
  assumes "audit_vulnerabilities (env_cargo_audit e) = Inr v"
    and "deny_compliance (env_cargo_deny e) = Inr d"
  shows "\<exists>cm h. calculate_compliance_metrics (env_fs e) cs = Inr cm
           \<and> generate_html_report (env_clock e)
                \<lparr> audit_metrics.timestamp = Isoformat (env_clock e (ticks w)), vulnerabilities = v,
                  compliance = d, dependencies = [], secrets = [] \<rparr> cm (Suc (ticks w))
                = (Inr h, Suc (Suc (ticks w)))
           \<and> generated h = Strftime (env_clock e (Suc (ticks w)))
           \<and> vulnerabilities_count h = dict_get v ''count'' (CStr ''N/A'')
           \<and> vulnerabilities_critical h = dict_get v ''critical'' (CInt 0)
           \<and> security_metrics h = security_metrics_block
           \<and> fst (generate_dashboard e cs w) = None
           \<and> ticks (snd (generate_dashboard e cs w)) = ticks w + 3
           \<and> files (snd (generate_dashboard e cs w))
               = AList.update ''security-dashboard.json''
                   (DashboardJson
                      \<lparr> timestamp = Isoformat (env_clock e (Suc (Suc (ticks w)))),
                        audit_metrics =
                          \<lparr> audit_metrics.timestamp = Isoformat (env_clock e (ticks w)), vulnerabilities = v,
                            compliance = d, dependencies = [], secrets = [] \<rparr>,
                        compliance_metrics = cm \<rparr>)
                   (AList.update ''security-dashboard.html'' (HtmlReport h) (files w))"
proof -
  obtain cm where cm: "calculate_compliance_metrics (env_fs e) cs = Inr cm"
    using calculate_compliance_metrics_returns by blast
  obtain h where h: "generate_html_report (env_clock e)
                \<lparr> audit_metrics.timestamp = Isoformat (env_clock e (ticks w)), vulnerabilities = v,
                  compliance = d, dependencies = [], secrets = [] \<rparr> cm (Suc (ticks w))
                = (Inr h, Suc (Suc (ticks w)))"
    and hf: "generated h = Strftime (env_clock e (Suc (ticks w)))"
      "vulnerabilities_count h = dict_get v ''count'' (CStr ''N/A'')"
      "vulnerabilities_critical h = dict_get v ''critical'' (CInt 0)"
      "security_metrics h = security_metrics_block"
    using generate_html_report_returns
            [of "env_clock e" "\<lparr> audit_metrics.timestamp = Isoformat (env_clock e (ticks w)),
                  vulnerabilities = v, compliance = d, dependencies = [], secrets = [] \<rparr>"
                cm "Suc (ticks w)"]
    by auto
  show ?thesis
    using assms cm h hf
    by (simp add: generate_dashboard_def run_security_audit_def Let_def write_file_def
        print_lines_def)
qed

lemma report_run:
  assumes "os_path_exists (env_fs e) checklist_file"
    and "env_open_csv e checklist_file = Rows cs"
    and "files w = []"
  shows "fst (main_compliance_report e w) = None
         \<and> ticks (snd (main_compliance_report e w)) = Suc (ticks w)
         \<and> map fst (files (snd (main_compliance_report e w)))
             = [''security-compliance-report.txt'', ''security-compliance-report.json'']
         \<and> surfaced_timestamps (snd (main_compliance_report e w))
             = [Isoformat (env_clock e (ticks w)), Isoformat (env_clock e (ticks w))]"
proof -
  from main_compliance_report_success [OF assms(1,2), of w]
  obtain s ls where g: "generated_at s = Isoformat (env_clock e (ticks w))"
    and ls: "generate_text_report (map (assess_control (env_fs e)) cs) s = Inr ls"
    and r: "fst (main_compliance_report e w) = None"
      "ticks (snd (main_compliance_report e w)) = Suc (ticks w)"
    and f: "files (snd (main_compliance_report e w))
               = AList.update ''security-compliance-report.json''
                   (JsonReport \<lparr> report_summary = s,
                                report_assessments = map (assess_control (env_fs e)) cs \<rparr>)
                   (AList.update ''security-compliance-report.txt'' (TextReport ls) (files w))"
    by blast
  show ?thesis
    using r text_report_times [OF ls]
    by (simp add: f assms(3) surfaced_timestamps_def document_timestamps_def g)
qed

lemma dashboard_run:
  assumes "env_open_csv e checklist_file = Rows cs"
    and "audit_vulnerabilities (env_cargo_audit e) = Inr v"
    and "deny_compliance (env_cargo_deny e) = Inr d"
    and "files w = []"
  shows "\<exists>h data. fst (main_security_dashboard e w) = None
         \<and> ticks (snd (main_security_dashboard e w)) = ticks w + 3
         \<and> files (snd (main_security_dashboard e w))
             = [(''security-dashboard.html'', HtmlReport h),
                (''security-dashboard.json'', DashboardJson data)]
         \<and> surfaced_timestamps (snd (main_security_dashboard e w))
             = [Strftime (env_clock e (ticks w + 1)), Isoformat (env_clock e (ticks w + 2)),
                Isoformat (env_clock e (ticks w))]
         \<and> vulnerabilities_count h = dict_get v ''count'' (CStr ''N/A'')
         \<and> vulnerabilities_critical h = dict_get v ''critical'' (CInt 0)
         \<and> security_metrics h = security_metrics_block
         \<and> vulnerabilities (audit_metrics data) = v
         \<and> compliance (audit_metrics data) = d
         \<and> calculate_compliance_metrics (env_fs e) cs = Inr (compliance_metrics data)"
proof -
  have m: "main_security_dashboard e w = generate_dashboard e cs w"
    by (simp add: main_security_dashboard_def load_checklist_def assms(1))
  from generate_dashboard_success [OF assms(2,3), of cs w]
  obtain cm h where cm: "calculate_compliance_metrics (env_fs e) cs = Inr cm"
    and h: "generated h = Strftime (env_clock e (Suc (ticks w)))"
      "vulnerabilities_count h = dict_get v ''count'' (CStr ''N/A'')"
      "vulnerabilities_critical h = dict_get v ''critical'' (CInt 0)"
      "security_metrics h = security_metrics_block"
    and r: "fst (generate_dashboard e cs w) = None"
      "ticks (snd (generate_dashboard e cs w)) = ticks w + 3"
    and f: "files (snd (generate_dashboard e cs w))
               = AList.update ''security-dashboard.json''
                   (DashboardJson
                      \<lparr> timestamp = Isoformat (env_clock e (Suc (Suc (ticks w)))),
                        audit_metrics =
                          \<lparr> audit_metrics.timestamp = Isoformat (env_clock e (ticks w)),
                            vulnerabilities = v, compliance = d, dependencies = [],
                            secrets = [] \<rparr>,
                        compliance_metrics = cm \<rparr>)
                   (AList.update ''security-dashboard.html'' (HtmlReport h) (files w))"
    by blast
  show ?thesis
    apply (rule exI [of _ h])
    apply (rule exI [of _ "\<lparr> timestamp = Isoformat (env_clock e (Suc (Suc (ticks w)))),
                        audit_metrics =
                          \<lparr> audit_metrics.timestamp = Isoformat (env_clock e (ticks w)),
                            vulnerabilities = v, compliance = d, dependencies = [],
                            secrets = [] \<rparr>,
                        compliance_metrics = cm \<rparr>"])
    using r h cm
    by (simp add: m f assms(4) surfaced_timestamps_def document_timestamps_def)
qed

lemma tools_unavailable_example:
  "audit_vulnerabilities (env_cargo_audit env_example)
     = Inr [(''error'', CStr ''Cargo audit not available'')]"
  "deny_compliance (env_cargo_deny env_example)
     = Inr [(''error'', CStr ''Cargo deny not available'')]"
  "env_open_csv env_example checklist_file = Rows checklist_example"
  "os_path_exists (env_fs env_example) checklist_file"
  "files world_start = []"
  "ticks world_start = 0"
  "env_clock env_example = clock_example"
  by (simp_all add: env_example_def audit_vulnerabilities_def deny_compliance_def
      world_start_def os_path_exists_def)

text \<open>
  Claim C5, as stated, has every report of one run surface one timestamp value. In a
  run of the dashboard on the example checklist the page shows the second clock
  reading (formatted by \<^verbatim>\<open>strftime\<close>), the JSON file the third one under
  \<^verbatim>\<open>timestamp\<close> and the first one inside the audit metrics.
\<close>

theorem dashboard_timestamps_counterexample:
  "surfaced_timestamps (snd (main_security_dashboard env_example world_start))
     = [Strftime 1001, Isoformat 1002, Isoformat 1000]"
proof -
  from dashboard_run [OF tools_unavailable_example(3,1,2,5)]
  have "surfaced_timestamps (snd (main_security_dashboard env_example world_start))
          = [Strftime (env_clock env_example (ticks world_start + 1)),
             Isoformat (env_clock env_example (ticks world_start + 2)),
             Isoformat (env_clock env_example (ticks world_start))]"
    by blast
  then show ?thesis
    by (simp add: tools_unavailable_example clock_example_def)
qed

text \<open>
  Claim C5, amended: a run of the report script that loads its checklist reads the
  clock once, in \<open>generate_summary\<close>, and its text report and its JSON report show that
  one reading; a run of the dashboard that gets past the two tools reads the clock
  three times, and its page shows the second reading, its JSON file the third one
  under \<^verbatim>\<open>timestamp\<close> and the first one inside the audit metrics.
\<close>

theorem timestamps_per_run:
  "(os_path_exists (env_fs e) checklist_file \<and> env_open_csv e checklist_file = Rows cs
      \<and> files w = []
      \<longrightarrow> fst (main_compliance_report e w) = None
        \<and> ticks (snd (main_compliance_report e w)) = Suc (ticks w)
        \<and> map fst (files (snd (main_compliance_report e w)))
            = [''security-compliance-report.txt'', ''security-compliance-report.json'']
        \<and> surfaced_timestamps (snd (main_compliance_report e w))
            = [Isoformat (env_clock e (ticks w)), Isoformat (env_clock e (ticks w))])
   \<and> (env_open_csv e checklist_file = Rows cs
      \<and> audit_vulnerabilities (env_cargo_audit e) = Inr v
      \<and> deny_compliance (env_cargo_deny e) = Inr d
      \<and> files w = []
      \<longrightarrow> fst (main_security_dashboard e w) = None
        \<and> ticks (snd (main_security_dashboard e w)) = ticks w + 3
        \<and> map fst (files (snd (main_security_dashboard e w)))
            = [''security-dashboard.html'', ''security-dashboard.json'']
        \<and> surfaced_timestamps (snd (main_security_dashboard e w))
            = [Strftime (env_clock e (ticks w + 1)), Isoformat (env_clock e (ticks w + 2)),
               Isoformat (env_clock e (ticks w))])"
proof (rule conjI)
  show "os_path_exists (env_fs e) checklist_file \<and> env_open_csv e checklist_file = Rows cs
      \<and> files w = []
      \<longrightarrow> fst (main_compliance_report e w) = None
        \<and> ticks (snd (main_compliance_report e w)) = Suc (ticks w)
        \<and> map fst (files (snd (main_compliance_report e w)))
            = [''security-compliance-report.txt'', ''security-compliance-report.json'']
        \<and> surfaced_timestamps (snd (main_compliance_report e w))
            = [Isoformat (env_clock e (ticks w)), Isoformat (env_clock e (ticks w))]"
    using report_run [of e cs w] by blast
next
  show "env_open_csv e checklist_file = Rows cs
      \<and> audit_vulnerabilities (env_cargo_audit e) = Inr v
      \<and> deny_compliance (env_cargo_deny e) = Inr d
      \<and> files w = []
      \<longrightarrow> fst (main_security_dashboard e w) = None
        \<and> ticks (snd (main_security_dashboard e w)) = ticks w + 3
        \<and> map fst (files (snd (main_security_dashboard e w)))
            = [''security-dashboard.html'', ''security-dashboard.json'']
        \<and> surfaced_timestamps (snd (main_security_dashboard e w))
            = [Strftime (env_clock e (ticks w + 1)), Isoformat (env_clock e (ticks w + 2)),
               Isoformat (env_clock e (ticks w))]"
  proof (rule impI)
    assume "env_open_csv e checklist_file = Rows cs
      \<and> audit_vulnerabilities (env_cargo_audit e) = Inr v
      \<and> deny_compliance (env_cargo_deny e) = Inr d
      \<and> files w = []"
    then obtain h data where "fst (main_security_dashboard e w) = None"
      "ticks (snd (main_security_dashboard e w)) = ticks w + 3"
      "files (snd (main_security_dashboard e w))
             = [(''security-dashboard.html'', HtmlReport h),
                (''security-dashboard.json'', DashboardJson data)]"
      "surfaced_timestamps (snd (main_security_dashboard e w))
             = [Strftime (env_clock e (ticks w + 1)), Isoformat (env_clock e (ticks w + 2)),
                Isoformat (env_clock e (ticks w))]"
      using dashboard_run [of e cs v d w] by blast
    then show "fst (main_security_dashboard e w) = None
        \<and> ticks (snd (main_security_dashboard e w)) = ticks w + 3
        \<and> map fst (files (snd (main_security_dashboard e w)))
            = [''security-dashboard.html'', ''security-dashboard.json'']
        \<and> surfaced_timestamps (snd (main_security_dashboard e w))
            = [Strftime (env_clock e (ticks w + 1)), Isoformat (env_clock e (ticks w + 2)),
               Isoformat (env_clock e (ticks w))]"
      by simp
  qed
qed

text \<open>
  The amended claim C5 on the example run: both reports of the report script show
  the reading 1000, and the run takes one reading; the dashboard takes three.
\<close>

theorem timestamps_per_run_witness:
  "surfaced_timestamps (snd (main_compliance_report env_example world_start))
     = [Isoformat 1000, Isoformat 1000]
   \<and> ticks (snd (main_compliance_report env_example world_start)) = 1
   \<and> ticks (snd (main_security_dashboard env_example world_start)) = 3"
  using timestamps_per_run
          [of env_example checklist_example world_start
              "[(''error'', CStr ''Cargo audit not available'')]"
              "[(''error'', CStr ''Cargo deny not available'')]"]
  by (simp add: tools_unavailable_example clock_example_def)

section \<open>External tools and fatal failures\<close>

lemma audit_vulnerabilities_unavailable:
  assumes "outcome = RaisesFileNotFoundError \<or> outcome = RaisesTimeoutExpired
           \<or> outcome = RaisesSubprocessError
           \<or> (\<exists>rc out. outcome = Completed rc out \<and> rc \<noteq> 0)"
  shows "\<exists>msg. audit_vulnerabilities outcome = Inr [(''error'', CStr msg)]"
  using assms by (auto simp add: audit_vulnerabilities_def)

lemma deny_compliance_unavailable:
  assumes "outcome = RaisesFileNotFoundError \<or> outcome = RaisesTimeoutExpired
           \<or> outcome = RaisesSubprocessError
           \<or> (\<exists>rc out. outcome = Completed rc out \<and> rc \<noteq> 0)"
  shows "\<exists>msg. deny_compliance outcome = Inr [(''error'', CStr msg)]"
  using assms by (auto simp add: deny_compliance_def)

lemma audit_vulnerabilities_listed:
  "audit_vulnerabilities
     (Completed 0 (Loaded (JObj [(''vulnerabilities'', JArr (map JObj findings))])))
   = Inr [(''count'', CInt (length findings)),
          (''critical'',
           CInt (length (filter (\<lambda>f. dict_get f ''severity'' JNull = JStr ''critical'')
                           findings)))]"
proof -
  have "count_critical (map JObj fs)
          = Inr (length (filter (\<lambda>f. dict_get f ''severity'' JNull = JStr ''critical'') fs))"
    for fs
    by (induction fs) (simp_all add: json_get_def)
  then show ?thesis
    by (simp add: audit_vulnerabilities_def json_get_def json_len_def json_iter_def
        dict_get_def)
qed

lemma deny_compliance_listed:
  "deny_compliance
     (Completed 0 (Loaded (JObj [(''licenses'', JArr ls), (''bans'', JArr bs)])))
   = Inr [(''license_issues'', CInt (length ls)), (''ban_issues'', CInt (length bs))]"
  by (simp add: deny_compliance_def json_get_def json_len_def dict_get_def)

text \<open>
  The part of claim C7 that holds: in every combination where each tool either is
  missing, times out, fails to start, exits with a status other than 0, or delivers an
  output that the code can process, the dashboard completes, records the result of
  either tool independently of the other, and its JSON file carries the compliance
  metrics of the checklist, which depend on the checklist and the filesystem only.
\<close>

lemma tool_failures_isolated:
  assumes "env_open_csv e checklist_file = Rows cs"
    and "env_cargo_audit e = RaisesFileNotFoundError \<or> env_cargo_audit e = RaisesTimeoutExpired
           \<or> env_cargo_audit e = RaisesSubprocessError
           \<or> (\<exists>rc out. env_cargo_audit e = Completed rc out \<and> rc \<noteq> 0)
           \<or> (\<exists>v. audit_vulnerabilities (env_cargo_audit e) = Inr v)"
    and "env_cargo_deny e = RaisesFileNotFoundError \<or> env_cargo_deny e = RaisesTimeoutExpired
           \<or> env_cargo_deny e = RaisesSubprocessError
           \<or> (\<exists>rc out. env_cargo_deny e = Completed rc out \<and> rc \<noteq> 0)
           \<or> (\<exists>d. deny_compliance (env_cargo_deny e) = Inr d)"
    and "files w = []"
  shows "\<exists>h data. fst (main_security_dashboard e w) = None
           \<and> files (snd (main_security_dashboard e w))
               = [(''security-dashboard.html'', HtmlReport h),
                  (''security-dashboard.json'', DashboardJson data)]
           \<and> audit_vulnerabilities (env_cargo_audit e)
               = Inr (vulnerabilities (audit_metrics data))
           \<and> deny_compliance (env_cargo_deny e) = Inr (compliance (audit_metrics data))
           \<and> calculate_compliance_metrics (env_fs e) cs = Inr (compliance_metrics data)"
proof -
  obtain a where a: "audit_vulnerabilities (env_cargo_audit e) = Inr a"
    using audit_vulnerabilities_unavailable [of "env_cargo_audit e"] assms(2) by blast
  obtain d where d: "deny_compliance (env_cargo_deny e) = Inr d"
    using deny_compliance_unavailable [of "env_cargo_deny e"] assms(3) by blast
  from dashboard_run [OF assms(1) a d assms(4)] a d show ?thesis
    by auto
qed

text \<open>
  The part of claim C9 that holds: when the checklist cannot be opened or read, both
  programs exit with status 1, having printed one line, read no clock and written no
  file.
\<close>

lemma load_failure_aborts:
  assumes "env_open_csv e checklist_file = RaisesFileNotFound
           \<or> env_open_csv e checklist_file = RaisesException msg"
  shows "fst (main_security_dashboard e w) = Some (SystemExit 1)
         \<and> files (snd (main_security_dashboard e w)) = files w
         \<and> ticks (snd (main_security_dashboard e w)) = ticks w
         \<and> length (console (snd (main_security_dashboard e w))) = Suc (length (console w))
         \<and> fst (main_compliance_report e w) = Some (SystemExit 1)
         \<and> files (snd (main_compliance_report e w)) = files w
         \<and> ticks (snd (main_compliance_report e w)) = ticks w
         \<and> length (console (snd (main_compliance_report e w))) = Suc (length (console w))"
  using assms
  by (auto simp add: main_security_dashboard_def main_compliance_report_def load_checklist_def
      print_lines_def)

text \<open>
  Claim C6 at a run where neither tool is installed. The audit metrics record an
  \<^verbatim>\<open>error\<close> entry for each tool and no count. The page shows \<^verbatim>\<open>N/A\<close> for the total
  count, but the number 0 for the critical count, and the block with the license and
  ban issues is the unformatted template text; the console prints 0 critical
  vulnerabilities as well.
\<close>

theorem unavailable_tools_rendering:
  "\<exists>h data. files (snd (main_security_dashboard env_example world_start))
               = [(''security-dashboard.html'', HtmlReport h),
                  (''security-dashboard.json'', DashboardJson data)]
      \<and> vulnerabilities (audit_metrics data) = [(''error'', CStr ''Cargo audit not available'')]
      \<and> compliance (audit_metrics data) = [(''error'', CStr ''Cargo deny not available'')]
      \<and> vulnerabilities_count h = CStr ''N/A''
      \<and> vulnerabilities_critical h = CInt 0
      \<and> security_metrics h = security_metrics_block"
proof -
  from dashboard_run [OF tools_unavailable_example(3,1,2,5)]
  obtain h data where
    "files (snd (main_security_dashboard env_example world_start))
             = [(''security-dashboard.html'', HtmlReport h),
                (''security-dashboard.json'', DashboardJson data)]"
    "vulnerabilities_count h
       = dict_get [(''error'', CStr ''Cargo audit not available'')] ''count'' (CStr ''N/A'')"
    "vulnerabilities_critical h
       = dict_get [(''error'', CStr ''Cargo audit not available'')] ''critical'' (CInt 0)"
    "security_metrics h = security_metrics_block"
    "vulnerabilities (audit_metrics data) = [(''error'', CStr ''Cargo audit not available'')]"
    "compliance (audit_metrics data) = [(''error'', CStr ''Cargo deny not available'')]"
    by blast
  then show ?thesis
    by (simp add: dict_get_def)
qed

text \<open>
  Claim C7 at a run where \<^verbatim>\<open>cargo audit\<close> exits with 0 and prints something that is
  not JSON: \<^verbatim>\<open>json.loads\<close> raises, no \<^verbatim>\<open>except\<close> clause catches it, and the run ends
  after its first printed line and its first clock reading, with no file written and
  no compliance metrics computed. The run where \<^verbatim>\<open>cargo\<close> is not installed completes
  and writes both files.
\<close>

theorem unparseable_audit_output_halts_dashboard:
  "main_security_dashboard env_audit_unparseable world_start
     = (Some JSONDecodeError,
        \<lparr> ticks = 1, console = [[Lit ''Generating security dashboard...'']], files = [] \<rparr>)
   \<and> fst (main_security_dashboard env_example world_start) = None
   \<and> map fst (files (snd (main_security_dashboard env_example world_start)))
       = [''security-dashboard.html'', ''security-dashboard.json'']"
proof -
  have "main_security_dashboard env_audit_unparseable world_start
     = (Some JSONDecodeError,
        \<lparr> ticks = 1, console = [[Lit ''Generating security dashboard...'']], files = [] \<rparr>)"
    by (simp add: main_security_dashboard_def load_checklist_def generate_dashboard_def
        run_security_audit_def audit_vulnerabilities_def env_audit_unparseable_def
        env_example_def print_lines_def world_start_def Let_def)
  moreover from dashboard_run [OF tools_unavailable_example(3,1,2,5)]
  have "fst (main_security_dashboard env_example world_start) = None
   \<and> map fst (files (snd (main_security_dashboard env_example world_start)))
       = [''security-dashboard.html'', ''security-dashboard.json'']"
    by auto
  ultimately show ?thesis
    by (rule conjI)
qed

text \<open>
  Claim C9 at a run whose checklist loads, where \<^verbatim>\<open>cargo audit\<close> exits with 101 and
  \<^verbatim>\<open>cargo deny\<close> exits with 0 and an empty standard output: the failure of the audit
  is recorded, then the run of the dashboard ends with an uncaught
  \<^verbatim>\<open>JSONDecodeError\<close>, after one clock reading and one printed line, and has written
  no file. So a load failure is not the only failure that halts output entirely.
\<close>

theorem empty_deny_output_halts_dashboard:
  "env_open_csv env_deny_empty_stdout checklist_file = Rows checklist_example
   \<and> env_cargo_audit env_deny_empty_stdout = Completed 101 RaisesJSONDecodeError
   \<and> env_cargo_deny env_deny_empty_stdout = Completed 0 RaisesJSONDecodeError
   \<and> audit_vulnerabilities (env_cargo_audit env_deny_empty_stdout)
       = Inr [(''error'', CStr ''Cargo audit failed'')]
   \<and> main_security_dashboard env_deny_empty_stdout world_start
       = (Some JSONDecodeError,
          \<lparr> ticks = 1, console = [[Lit ''Generating security dashboard...'']], files = [] \<rparr>)"
  by (simp add: main_security_dashboard_def load_checklist_def generate_dashboard_def
      run_security_audit_def audit_vulnerabilities_def deny_compliance_def
      env_deny_empty_stdout_def env_example_def print_lines_def world_start_def Let_def)

end
